theory Spec2Isabelle
  imports Main
begin

section \<open>Tables of the backend\<close>

text \<open>
  The application keeps its data in a hosted relational store; the pages under
  \<^verbatim>\<open>src/app\<close> read and write it one statement at a time. A table is a list of rows
  in insertion order. Integer columns and the JavaScript numbers holding them are modelled
  as unbounded \<open>int\<close>; generated columns that no modelled function reads
  (\<^verbatim>\<open>created_at\<close>, the identity of \<^verbatim>\<open>point_transactions\<close>) are left out.
  The textual columns \<^verbatim>\<open>status\<close> and \<^verbatim>\<open>type\<close> stay strings, as the code writes them.
\<close>

type_synonym uuid = string

record child_row =
  c_id :: uuid
  c_user_id :: uuid
  c_name :: string
  c_points :: int

record task =
  t_id :: uuid
  t_user_id :: uuid
  t_child_id :: uuid
  t_title :: string
  t_category :: string
  t_point :: int
  t_is_done :: bool

record point_transaction =
  tx_child_id :: uuid
  tx_task_id :: "nat option"
  tx_reward_redemption_id :: "nat option"
  tx_type :: string
  tx_points :: int
  tx_note :: "string option"

record reward =
  rw_id :: nat
  rw_parent_id :: uuid
  rw_title :: string
  rw_required_points :: int
  rw_is_active :: bool
  rw_child_id :: "uuid option"

record reward_redemption =
  rr_id :: nat
  rr_child_id :: uuid
  rr_reward_id :: nat
  rr_status :: string
  rr_requested_at :: nat
  rr_handled_by :: "uuid option"
  rr_handled_at :: "nat option"

record db =
  children :: "child_row list"
  db_tasks :: "task list"
  point_transactions :: "point_transaction list"
  db_rewards :: "reward list"
  reward_redemptions :: "reward_redemption list"

text \<open>The error object a failed backend call returns; only its message is read.\<close>

datatype supabase_error = SupabaseError string

section \<open>Statements the pages issue\<close>

text \<open>
  \<^verbatim>\<open>from("children").select("points").eq("id", cid).single()\<close>: the points of the one
  matching row; no row, or more than one, is an error of \<^verbatim>\<open>single()\<close>.
\<close>

definition select_points_single :: "db \<Rightarrow> uuid \<Rightarrow> int option" where
  "select_points_single d cid =
     (case filter (\<lambda>c. c_id c = cid) (children d) of
        [c] \<Rightarrow> Some (c_points c)
      | _ \<Rightarrow> None)"

text \<open>\<^verbatim>\<open>from("children").update({ points: n }).eq("id", cid)\<close>.\<close>

definition update_points :: "uuid \<Rightarrow> int \<Rightarrow> db \<Rightarrow> db" where
  "update_points cid n d =
     d\<lparr>children := map (\<lambda>c. if c_id c = cid then c\<lparr>c_points := n\<rparr> else c) (children d)\<rparr>"

text \<open>\<^verbatim>\<open>from("point_transactions").insert(row)\<close>.\<close>

definition insert_point_transaction :: "point_transaction \<Rightarrow> db \<Rightarrow> db" where
  "insert_point_transaction row d = d\<lparr>point_transactions := point_transactions d @ [row]\<rparr>"

text \<open>\<^verbatim>\<open>from("reward_redemptions").update({ status: s }).eq("id", rid)\<close>.\<close>

definition update_status :: "nat \<Rightarrow> string \<Rightarrow> db \<Rightarrow> db" where
  "update_status rid s d =
     d\<lparr>reward_redemptions :=
         map (\<lambda>r. if rr_id r = rid then r\<lparr>rr_status := s\<rparr> else r) (reward_redemptions d)\<rparr>"

text \<open>
  Modelled from the spec: the stored procedure \<^verbatim>\<open>toggle_task_done(p_task_id, p_is_done)\<close>
  is called by the child page but its body is not among the sources. The spec's backend
  operation \<^verbatim>\<open>writeTaskDone(taskId, done)\<close> writes the done flag of the referenced task, and
  a task that does not exist is the error \<^verbatim>\<open>NotFound\<close>.
\<close>

definition toggle_task_done :: "uuid \<Rightarrow> bool \<Rightarrow> db \<Rightarrow> supabase_error + db" where
  "toggle_task_done p_task_id p_is_done d =
     (if list_ex (\<lambda>t. t_id t = p_task_id) (db_tasks d)
      then Inr (d\<lparr>db_tasks :=
                  map (\<lambda>t. if t_id t = p_task_id then t\<lparr>t_is_done := p_is_done\<rparr> else t)
                      (db_tasks d)\<rparr>)
      else Inl (SupabaseError ''NotFound''))"

section \<open>The child's task page: \<^verbatim>\<open>src/app/child/page.tsx\<close>\<close>

text \<open>
  The React state the handler reads and writes: the selected child, the tasks loaded when
  the page opened, and the map from child id to the points shown.
\<close>

record child_page =
  selectedChildId :: uuid
  tasks :: "task list"
  pointsMap :: "uuid \<rightharpoonup> int"

text \<open>
  What the backend answers during one call of \<^verbatim>\<open>toggleDone\<close>: the signed-in user, and
  for each of the four requests the error it returns, if any. A request that returns an
  error has written nothing.
\<close>

record toggle_env =
  te_user :: "uuid option"
  te_updateTaskErr :: "supabase_error option"
  te_getPointErr :: "supabase_error option"
  te_updatePointErr :: "supabase_error option"
  te_txErr :: "supabase_error option"

text \<open>What the user is shown: the two yellow notices, the four alerts, or the toast
  with the signed delta.\<close>

datatype toggle_outcome =
    SelectChildNotice
  | OtherChildNotice
  | NoUser
  | UpdateTaskAlert supabase_error
  | GetPointAlert "supabase_error option"
  | UpdatePointAlert supabase_error
  | TxAlert supabase_error
  | ToggledToast bool int

text \<open>The note prefixes of the history row, as UTF-8 bytes (the source writes them in
  Japanese: "done:" and "redo:").\<close>

definition note_done_prefix :: string where
  "note_done_prefix =
     [CHR 0xE3, CHR 0x81, CHR 0xA7, CHR 0xE3, CHR 0x81, CHR 0x8D, CHR 0xE3, CHR 0x81, CHR 0x9F,
      CHR 0xEF, CHR 0xBC, CHR 0x9A]"

definition note_undo_prefix :: string where
  "note_undo_prefix =
     [CHR 0xE3, CHR 0x82, CHR 0x84, CHR 0xE3, CHR 0x82, CHR 0x8A, CHR 0xE3, CHR 0x81, CHR 0xAA,
      CHR 0xE3, CHR 0x81, CHR 0x8A, CHR 0xE3, CHR 0x81, CHR 0x97, CHR 0xEF, CHR 0xBC, CHR 0x9A]"

text \<open>The history row of step 4 of \<^verbatim>\<open>toggleDone\<close>.\<close>

definition toggle_row :: "uuid \<Rightarrow> task \<Rightarrow> point_transaction" where
  "toggle_row cid t =
     (let nextDone = \<not> t_is_done t;
          delta = (if nextDone then t_point t else - t_point t)
      in \<lparr>tx_child_id = cid,
          tx_task_id = None,
          tx_reward_redemption_id = None,
          tx_type = (if nextDone then ''task_done'' else ''task_undo''),
          tx_points = delta,
          tx_note = Some ((if nextDone then note_done_prefix else note_undo_prefix) @ t_title t)\<rparr>)"

text \<open>
  \<^verbatim>\<open>toggleDone(task)\<close>: the two guards, then the task flag through the stored procedure,
  the read of the current points, the write of \<open>max 0 (points + delta)\<close>, the history row,
  and last the update of the React state. Every error returns at once, keeping whatever
  was written before it.
\<close>

definition toggleDone ::
  "toggle_env \<Rightarrow> task \<Rightarrow> child_page \<Rightarrow> db \<Rightarrow> toggle_outcome \<times> child_page \<times> db" where
  "toggleDone env t ui d =
     (if selectedChildId ui = [] then (SelectChildNotice, ui, d)
      else if t_child_id t \<noteq> selectedChildId ui then (OtherChildNotice, ui, d)
      else
        let nextDone = \<not> t_is_done t;
            delta = (if nextDone then t_point t else - t_point t)
        in case te_user env of
             None \<Rightarrow> (NoUser, ui, d)
           | Some user \<Rightarrow>
              (case (case te_updateTaskErr env of
                       Some e \<Rightarrow> Inl e
                     | None \<Rightarrow> toggle_task_done (t_id t) nextDone d) of
                 Inl e \<Rightarrow> (UpdateTaskAlert e, ui, d)
               | Inr d1 \<Rightarrow>
                  (case (case te_getPointErr env of
                           Some e \<Rightarrow> Inl (Some e)
                         | None \<Rightarrow>
                            (case select_points_single d1 (selectedChildId ui) of
                               None \<Rightarrow> Inl None
                             | Some p \<Rightarrow> Inr p)) of
                     Inl e \<Rightarrow> (GetPointAlert e, ui, d1)
                   | Inr points \<Rightarrow>
                      let newPoints = max 0 (points + delta) in
                      (case te_updatePointErr env of
                         Some e \<Rightarrow> (UpdatePointAlert e, ui, d1)
                       | None \<Rightarrow>
                          let d2 = update_points (selectedChildId ui) newPoints d1 in
                          (case te_txErr env of
                             Some e \<Rightarrow> (TxAlert e, ui, d2)
                           | None \<Rightarrow>
                              let d3 = insert_point_transaction
                                         (toggle_row (selectedChildId ui) t) d2
                              in (ToggledToast nextDone delta,
                                  ui\<lparr>tasks :=
                                       map (\<lambda>x. if t_id x = t_id t
                                                 then x\<lparr>t_is_done := nextDone\<rparr> else x)
                                           (tasks ui),
                                     pointsMap :=
                                       (pointsMap ui)(selectedChildId ui \<mapsto> newPoints)\<rparr>,
                                  d3))))))"

text \<open>Every backend call answers without error, for the signed-in parent \<open>u\<close>.\<close>

definition all_ok :: "uuid \<Rightarrow> toggle_env" where
  "all_ok u = \<lparr>te_user = Some u, te_updateTaskErr = None, te_getPointErr = None,
               te_updatePointErr = None, te_txErr = None\<rparr>"

section \<open>The child's rewards page: \<^verbatim>\<open>exchangeReward\<close>\<close>

text \<open>
  The React state of the rewards page. Its fields have the names of the task page's
  (\<^verbatim>\<open>selectedChildId\<close>, \<^verbatim>\<open>rewards\<close>, \<^verbatim>\<open>pointsMap\<close>); they carry a prefix here.
\<close>

record rewards_page =
  rp_selectedChildId :: uuid
  rp_rewards :: "reward list"
  rp_pointsMap :: "uuid \<rightharpoonup> int"

text \<open>
  What the backend answers to the insert: an error, or else the identity and the request
  time it generates for the new row (the page sends neither).
\<close>

record exchange_env =
  ee_insertErr :: "supabase_error option"
  ee_new_id :: nat
  ee_now :: nat

datatype exchange_outcome =
    ExSelectChildNotice
  | NotEnoughPointsNotice
  | ExchangeAlert
  | ExchangedToast string

definition exchangeReward ::
  "exchange_env \<Rightarrow> reward \<Rightarrow> rewards_page \<Rightarrow> db \<Rightarrow> exchange_outcome \<times> db" where
  "exchangeReward env rw ui d =
     (if rp_selectedChildId ui = [] then (ExSelectChildNotice, d)
      else
        let current = (case rp_pointsMap ui (rp_selectedChildId ui) of
                         None \<Rightarrow> 0 | Some p \<Rightarrow> p)
        in if current < rw_required_points rw then (NotEnoughPointsNotice, d)
           else
             (case ee_insertErr env of
                Some e \<Rightarrow> (ExchangeAlert, d)
              | None \<Rightarrow>
                 (ExchangedToast (rw_title rw),
                  d\<lparr>reward_redemptions := reward_redemptions d @
                       [\<lparr>rr_id = ee_new_id env,
                         rr_child_id = rp_selectedChildId ui,
                         rr_reward_id = rw_id rw,
                         rr_status = ''pending'',
                         rr_requested_at = ee_now env,
                         rr_handled_by = None,
                         rr_handled_at = None\<rparr>]\<rparr>)))"

section \<open>The simple approval page: \<^verbatim>\<open>src/app/parent/reward-requests/page.tsx\<close>\<close>

text \<open>
  A row of \<^verbatim>\<open>select('*, rewards(*)')\<close>: the redemption with the reward it references
  nested in it. The backend nests null when it finds no such reward.
\<close>

record redemption_with_reward = reward_redemption +
  rewards :: "reward option"

definition with_reward :: "db \<Rightarrow> reward_redemption \<Rightarrow> redemption_with_reward" where
  "with_reward d r =
     reward_redemption.extend r
       (redemption_with_reward.fields
          (find (\<lambda>w. rw_id w = rr_reward_id r) (db_rewards d)))"

text \<open>\<^verbatim>\<open>from('reward_redemptions').select('*, rewards(*)').eq('status', 'pending')\<close>.\<close>

definition select_pending :: "db \<Rightarrow> redemption_with_reward list" where
  "select_pending d =
     map (with_reward d) (filter (\<lambda>r. rr_status r = ''pending'') (reward_redemptions d))"

record approve_env =
  ae_updateErr :: "supabase_error option"
  ae_insertErr :: "supabase_error option"
  ae_selectErr :: "supabase_error option"

datatype approve_outcome = ApproveReturned | ApproveTypeError

text \<open>The history row of step 2 of \<^verbatim>\<open>approve\<close>.\<close>

definition spend_row :: "uuid \<Rightarrow> nat \<Rightarrow> int \<Rightarrow> point_transaction" where
  "spend_row cid rid required =
     \<lparr>tx_child_id = cid, tx_task_id = None, tx_reward_redemption_id = Some rid,
      tx_type = ''spend'', tx_points = - required, tx_note = None\<rparr>"

text \<open>
  \<^verbatim>\<open>approve(r)\<close>: the status update, the history row, the re-read of the pending list;
  three awaited requests in a row, none of whose errors is looked at. Reading
  \<^verbatim>\<open>r.rewards.required_points\<close> of a row without a reward throws after the first request.
  The state is the displayed list and the database.
\<close>

definition approve ::
  "approve_env \<Rightarrow> redemption_with_reward \<Rightarrow> redemption_with_reward list \<times> db
     \<Rightarrow> approve_outcome \<times> redemption_with_reward list \<times> db" where
  "approve env r st =
     (let list = fst st; d = snd st;
          d1 = (case ae_updateErr env of
                  Some e \<Rightarrow> d
                | None \<Rightarrow> update_status (rr_id r) ''approved'' d)
      in case rewards r of
           None \<Rightarrow> (ApproveTypeError, list, d1)
         | Some w \<Rightarrow>
            let d2 = (case ae_insertErr env of
                        Some e \<Rightarrow> d1
                      | None \<Rightarrow>
                         insert_point_transaction
                           (spend_row (rr_child_id r) (rr_id r) (rw_required_points w)) d1);
                data = (case ae_selectErr env of
                          Some e \<Rightarrow> None
                        | None \<Rightarrow> Some (select_pending d2))
            in (ApproveReturned, (case data of None \<Rightarrow> [] | Some l \<Rightarrow> l), d2))"

definition approve_ok :: approve_env where
  "approve_ok = \<lparr>ae_updateErr = None, ae_insertErr = None, ae_selectErr = None\<rparr>"

text \<open>The spend rows recorded for one redemption.\<close>

definition spend_entries :: "db \<Rightarrow> nat \<Rightarrow> point_transaction list" where
  "spend_entries d rid =
     filter (\<lambda>e. tx_reward_redemption_id e = Some rid \<and> tx_type e = ''spend'')
       (point_transactions d)"

section \<open>The approval page: \<^verbatim>\<open>src/app/parent/redemptions/page.tsx\<close>\<close>

text \<open>The page's type \<^verbatim>\<open>Redemption\<close>: the selected columns and the two nested rows.\<close>

record Redemption =
  ri_id :: nat
  ri_status :: string
  ri_requested_at :: nat
  ri_child_id :: uuid
  ri_children :: "string option"
  ri_rewards :: "(string \<times> int) option"

definition to_Redemption :: "db \<Rightarrow> reward_redemption \<Rightarrow> Redemption" where
  "to_Redemption d r =
     \<lparr>ri_id = rr_id r, ri_status = rr_status r, ri_requested_at = rr_requested_at r,
      ri_child_id = rr_child_id r,
      ri_children = map_option c_name (find (\<lambda>c. c_id c = rr_child_id r) (children d)),
      ri_rewards = map_option (\<lambda>w. (rw_title w, rw_required_points w))
                     (find (\<lambda>w. rw_id w = rr_reward_id r) (db_rewards d))\<rparr>"

text \<open>
  \<^verbatim>\<open>fetchRows\<close>: the rows with \<^verbatim>\<open>status = 'pending'\<close>, in ascending order of
  \<^verbatim>\<open>requested_at\<close>; an error of the request is thrown. Rows with equal request times
  come in table order here; the backend promises no order among them.
\<close>

definition fetchRows :: "supabase_error option \<Rightarrow> db \<Rightarrow> supabase_error + Redemption list" where
  "fetchRows err d =
     (case err of
        Some e \<Rightarrow> Inl e
      | None \<Rightarrow>
         Inr (map (to_Redemption d)
                (sort_key rr_requested_at
                   (filter (\<lambda>r. rr_status r = ''pending'') (reward_redemptions d)))))"

text \<open>\<^verbatim>\<open>visibleItems\<close>: all items for the parent's choice "all", else one child's.\<close>

definition visibleItems :: "uuid \<Rightarrow> Redemption list \<Rightarrow> Redemption list" where
  "visibleItems selected items =
     (if selected = ''all'' then items else filter (\<lambda>r. ri_child_id r = selected) items)"

section \<open>Ledger sums and sequences of operations\<close>

text \<open>The sum of the signed points of the history rows of one child.\<close>

definition ledger_sum :: "db \<Rightarrow> uuid \<Rightarrow> int" where
  "ledger_sum d cid =
     sum_list (map tx_points (filter (\<lambda>e. tx_child_id e = cid) (point_transactions d)))"

text \<open>Every child's stored points equal the sum of its history rows.\<close>

definition ledger_consistent :: "db \<Rightarrow> bool" where
  "ledger_consistent d = list_all (\<lambda>c. c_points c = ledger_sum d (c_id c)) (children d)"

text \<open>
  An operation of a child: a toggle or a redemption request, each with the page state it
  is issued from and the backend's answers.
\<close>

datatype child_op =
    Toggle toggle_env task child_page
  | Exchange exchange_env reward rewards_page

fun apply_op :: "child_op \<Rightarrow> db \<Rightarrow> db" where
  "apply_op (Toggle env t ui) d = snd (snd (toggleDone env t ui d))"
| "apply_op (Exchange env w ui) d = snd (exchangeReward env w ui d)"

fun run :: "child_op list \<Rightarrow> db \<Rightarrow> db" where
  "run [] d = d"
| "run (x # xs) d = run xs (apply_op x d)"

text \<open>
  A toggle is exact when it neither stops between the balance write and the history
  row nor clamps: a completed toggle found points \<open>p\<close> with \<open>0 \<le> p + delta\<close>.
\<close>

fun exact_op :: "child_op \<Rightarrow> db \<Rightarrow> bool" where
  "exact_op (Toggle env t ui) d =
     (case fst (toggleDone env t ui d) of
        ToggledToast b dl \<Rightarrow>
          (case select_points_single d (selectedChildId ui) of
             None \<Rightarrow> False
           | Some p \<Rightarrow> 0 \<le> p + dl)
      | TxAlert e \<Rightarrow> False
      | _ \<Rightarrow> True)"
| "exact_op (Exchange env w ui) d = True"

fun exact_run :: "child_op list \<Rightarrow> db \<Rightarrow> bool" where
  "exact_run [] d = True"
| "exact_run (x # xs) d = (exact_op x d \<and> exact_run xs (apply_op x d))"

section \<open>Example states\<close>

text \<open>
  Hana earned 10 points for the dishes and spent 5 on a sticker: 5 points are left while
  the task worth 10 is still marked done.
\<close>

definition hana :: child_row where
  "hana = \<lparr>c_id = ''c1'', c_user_id = ''p1'', c_name = ''Hana'', c_points = 5\<rparr>"

definition dishes :: task where
  "dishes = \<lparr>t_id = ''t1'', t_user_id = ''p1'', t_child_id = ''c1'', t_title = ''dishes'',
             t_category = ''chore'', t_point = 10, t_is_done = True\<rparr>"

definition sticker :: reward where
  "sticker = \<lparr>rw_id = 6, rw_parent_id = ''p1'', rw_title = ''sticker'',
              rw_required_points = 5, rw_is_active = True, rw_child_id = Some ''c1''\<rparr>"

definition sticker_request :: reward_redemption where
  "sticker_request = \<lparr>rr_id = 3, rr_child_id = ''c1'', rr_reward_id = 6,
                      rr_status = ''approved'', rr_requested_at = 100,
                      rr_handled_by = Some ''p1'', rr_handled_at = Some 110\<rparr>"

definition db0 :: db where
  "db0 = \<lparr>children = [hana], db_tasks = [dishes],
          point_transactions =
            [\<lparr>tx_child_id = ''c1'', tx_task_id = None, tx_reward_redemption_id = None,
              tx_type = ''task_done'', tx_points = 10, tx_note = None\<rparr>,
             spend_row ''c1'' 3 5],
          db_rewards = [sticker], reward_redemptions = [sticker_request]\<rparr>"

definition ui0 :: child_page where
  "ui0 = \<lparr>selectedChildId = ''c1'', tasks = [dishes], pointsMap = [''c1'' \<mapsto> 5]\<rparr>"

text \<open>
  Scenario B of the spec: Taro has 15 points and has asked for a game that costs 20; a
  second, older request of his for the same game is pending too.
\<close>

definition taro :: child_row where
  "taro = \<lparr>c_id = ''c2'', c_user_id = ''p1'', c_name = ''Taro'', c_points = 15\<rparr>"

definition game :: reward where
  "game = \<lparr>rw_id = 2, rw_parent_id = ''p1'', rw_title = ''game'',
           rw_required_points = 20, rw_is_active = True, rw_child_id = Some ''c2''\<rparr>"

definition game_request :: reward_redemption where
  "game_request = \<lparr>rr_id = 7, rr_child_id = ''c2'', rr_reward_id = 2,
                   rr_status = ''pending'', rr_requested_at = 300,
                   rr_handled_by = None, rr_handled_at = None\<rparr>"

definition dbB :: db where
  "dbB = \<lparr>children = [taro], db_tasks = [],
          point_transactions =
            [\<lparr>tx_child_id = ''c2'', tx_task_id = None, tx_reward_redemption_id = None,
              tx_type = ''task_done'', tx_points = 15, tx_note = None\<rparr>],
          db_rewards = [game],
          reward_redemptions =
            [game_request, game_request\<lparr>rr_id := 8, rr_requested_at := 200\<rparr>]\<rparr>"

definition uiB :: rewards_page where
  "uiB = \<lparr>rp_selectedChildId = ''c2'', rp_rewards = [game], rp_pointsMap = [''c2'' \<mapsto> 15]\<rparr>"

text \<open>
  Scenario A of the spec: Mio has no points yet and her homework, worth 10, is not done.
\<close>

definition mio :: child_row where
  "mio = \<lparr>c_id = ''c3'', c_user_id = ''p1'', c_name = ''Mio'', c_points = 0\<rparr>"

definition homework :: task where
  "homework = \<lparr>t_id = ''t2'', t_user_id = ''p1'', t_child_id = ''c3'', t_title = ''homework'',
               t_category = ''study'', t_point = 10, t_is_done = False\<rparr>"

definition dbA :: db where
  "dbA = \<lparr>children = [mio], db_tasks = [homework], point_transactions = [],
          db_rewards = [], reward_redemptions = []\<rparr>"

definition uiA :: child_page where
  "uiA = \<lparr>selectedChildId = ''c3'', tasks = [homework], pointsMap = [''c3'' \<mapsto> 0]\<rparr>"

section \<open>Facts about the statements and about a completed toggle\<close>

lemma filter_update_points:
  "filter (\<lambda>c. c_id c = k) (map (\<lambda>c. if c_id c = cid then c\<lparr>c_points := n\<rparr> else c) xs) =
   map (\<lambda>c. if c_id c = cid then c\<lparr>c_points := n\<rparr> else c) (filter (\<lambda>c. c_id c = k) xs)"
  by (induction xs) auto

lemma select_points_single_update_same:
  "select_points_single d cid = Some p \<Longrightarrow>
   select_points_single (update_points cid n d) cid = Some n"
proof -
  assume "select_points_single d cid = Some p"
  then obtain c where c: "filter (\<lambda>c. c_id c = cid) (children d) = [c]"
    by (auto simp: select_points_single_def split: list.splits)
  then have "c \<in> set (filter (\<lambda>c. c_id c = cid) (children d))" by simp
  then have "c_id c = cid" by simp
  with c show ?thesis
    by (simp add: select_points_single_def update_points_def filter_update_points)
qed

lemma select_points_single_update_other:
  "k \<noteq> cid \<Longrightarrow> select_points_single (update_points cid n d) k = select_points_single d k"
proof -
  assume ne: "k \<noteq> cid"
  have "filter (\<lambda>c. c_id c = k) (map (\<lambda>c. if c_id c = cid then c\<lparr>c_points := n\<rparr> else c) xs)
        = filter (\<lambda>c. c_id c = k) xs" for xs :: "child_row list"
    using ne by (induction xs) auto
  then show ?thesis
    by (simp add: select_points_single_def update_points_def)
qed

lemma select_points_single_tasks:
  "select_points_single (d\<lparr>db_tasks := ts\<rparr>) k = select_points_single d k"
  by (simp add: select_points_single_def)

lemma select_points_single_insert:
  "select_points_single (insert_point_transaction row d) k = select_points_single d k"
  by (simp add: select_points_single_def insert_point_transaction_def)

lemma toggleDone_completed:
  assumes "toggleDone env t ui d = (ToggledToast b dl, ui', d')"
  shows "selectedChildId ui \<noteq> [] \<and> t_child_id t = selectedChildId ui \<and>
         te_user env \<noteq> None \<and> te_updateTaskErr env = None \<and> te_getPointErr env = None \<and>
         te_updatePointErr env = None \<and> te_txErr env = None \<and>
         list_ex (\<lambda>x. t_id x = t_id t) (db_tasks d) \<and>
         b = (\<not> t_is_done t) \<and> dl = (if t_is_done t then - t_point t else t_point t) \<and>
         (\<exists>p. select_points_single d (selectedChildId ui) = Some p \<and>
              d' = insert_point_transaction (toggle_row (selectedChildId ui) t)
                     (update_points (selectedChildId ui) (max 0 (p + dl))
                        (d\<lparr>db_tasks := map (\<lambda>x. if t_id x = t_id t
                                                 then x\<lparr>t_is_done := \<not> t_is_done t\<rparr> else x)
                                            (db_tasks d)\<rparr>)) \<and>
              ui' = ui\<lparr>tasks := map (\<lambda>x. if t_id x = t_id t
                                          then x\<lparr>t_is_done := \<not> t_is_done t\<rparr> else x)
                                     (tasks ui),
                      pointsMap := (pointsMap ui)(selectedChildId ui \<mapsto> max 0 (p + dl))\<rparr>)"
  using assms
  unfolding toggleDone_def toggle_task_done_def Let_def
  by (auto simp: select_points_single_tasks split: if_splits option.splits sum.splits)

lemma toggleDone_completes:
  assumes "selectedChildId ui \<noteq> []" "t_child_id t = selectedChildId ui"
    "te_user env = Some u" "te_updateTaskErr env = None" "te_getPointErr env = None"
    "te_updatePointErr env = None" "te_txErr env = None"
    "list_ex (\<lambda>x. t_id x = t_id t) (db_tasks d)"
    "select_points_single d (selectedChildId ui) = Some p"
  shows "fst (toggleDone env t ui d) =
           ToggledToast (\<not> t_is_done t) (if t_is_done t then - t_point t else t_point t)"
  using assms
  unfolding toggleDone_def toggle_task_done_def Let_def
  by (auto simp: select_points_single_tasks split: if_splits option.splits sum.splits)

lemma toggleDone_TxAlert:
  assumes "toggleDone env t ui d = (TxAlert e, ui', d')"
  shows "list_ex (\<lambda>x. t_id x = t_id t) (db_tasks d) \<and> ui' = ui \<and>
         (\<exists>p. select_points_single d (selectedChildId ui) = Some p \<and>
              d' = update_points (selectedChildId ui)
                     (max 0 (p + (if t_is_done t then - t_point t else t_point t)))
                     (d\<lparr>db_tasks := map (\<lambda>x. if t_id x = t_id t
                                              then x\<lparr>t_is_done := \<not> t_is_done t\<rparr> else x)
                                         (db_tasks d)\<rparr>))"
  using assms
  unfolding toggleDone_def toggle_task_done_def Let_def
  by (auto simp: select_points_single_tasks split: if_splits option.splits sum.splits)

lemma toggleDone_UpdatePointAlert:
  assumes "toggleDone env t ui d = (UpdatePointAlert e, ui', d')"
  shows "list_ex (\<lambda>x. t_id x = t_id t) (db_tasks d) \<and> ui' = ui \<and>
         d' = d\<lparr>db_tasks := map (\<lambda>x. if t_id x = t_id t
                                      then x\<lparr>t_is_done := \<not> t_is_done t\<rparr> else x)
                                 (db_tasks d)\<rparr>"
  using assms
  unfolding toggleDone_def toggle_task_done_def Let_def
  by (auto split: if_splits option.splits sum.splits)

lemma toggleDone_GetPointAlert:
  assumes "toggleDone env t ui d = (GetPointAlert e, ui', d')"
  shows "list_ex (\<lambda>x. t_id x = t_id t) (db_tasks d) \<and> ui' = ui \<and>
         d' = d\<lparr>db_tasks := map (\<lambda>x. if t_id x = t_id t
                                      then x\<lparr>t_is_done := \<not> t_is_done t\<rparr> else x)
                                 (db_tasks d)\<rparr>"
  using assms
  unfolding toggleDone_def toggle_task_done_def Let_def
  by (auto split: if_splits option.splits sum.splits)

lemma toggleDone_before_flag:
  assumes "toggleDone env t ui d = (out, ui', d')"
    and "out = SelectChildNotice \<or> out = OtherChildNotice \<or> out = NoUser \<or>
         (\<exists>e. out = UpdateTaskAlert e)"
  shows "d' = d \<and> ui' = ui"
  using assms
  unfolding toggleDone_def toggle_task_done_def Let_def
  by (auto split: if_splits option.splits sum.splits)

lemma set_done_in_sync:
  "map (\<lambda>x. if t_id x = k then x\<lparr>t_is_done := b\<rparr> else x) ts = ts \<longleftrightarrow>
   (\<forall>x \<in> set ts. t_id x = k \<longrightarrow> t_is_done x = b)"
proof (induction ts)
  case Nil
  then show ?case by simp
next
  case (Cons x ts)
  have "x\<lparr>t_is_done := b\<rparr> = x \<longleftrightarrow> t_is_done x = b"
    by (cases x) auto
  with Cons show ?case by auto
qed

section \<open>The stored points after a toggle\<close>

text \<open>The definitions an example run unfolds.\<close>

lemmas ex_defs = toggleDone_def toggle_task_done_def all_ok_def dishes_def ui0_def db0_def
  hana_def select_points_single_def update_points_def insert_point_transaction_def Let_def
  toggle_row_def spend_row_def sticker_def sticker_request_def

text \<open>
  C9. A toggle completes (the toast is shown) exactly when both guards pass, a user is
  signed in, none of the four requests returns an error, the task exists and the selected
  child has exactly one row; whether the debit exceeds the points plays no part. When it
  completes, the stored points and the points shown are \<open>max 0 (p + delta)\<close> for the
  points \<open>p\<close> read, hence never negative, and they are 0 when \<open>p + delta < 0\<close>.
\<close>

theorem toggleDone_stores_clamped_points:
  assumes "toggleDone env t ui d = (out, ui', d')"
  shows "(\<forall>b dl. out = ToggledToast b dl \<longrightarrow>
            (\<exists>p. select_points_single d (selectedChildId ui) = Some p \<and>
                 dl = (if t_is_done t then - t_point t else t_point t) \<and>
                 select_points_single d' (selectedChildId ui) = Some (max 0 (p + dl)) \<and>
                 pointsMap ui' (selectedChildId ui) = Some (max 0 (p + dl)) \<and>
                 0 \<le> max 0 (p + dl) \<and>
                 (p + dl < 0 \<longrightarrow> select_points_single d' (selectedChildId ui) = Some 0))) \<and>
         ((\<exists>b dl. out = ToggledToast b dl) \<longleftrightarrow>
            (selectedChildId ui \<noteq> [] \<and> t_child_id t = selectedChildId ui \<and>
             te_user env \<noteq> None \<and> te_updateTaskErr env = None \<and>
             te_getPointErr env = None \<and> te_updatePointErr env = None \<and>
             te_txErr env = None \<and> list_ex (\<lambda>x. t_id x = t_id t) (db_tasks d) \<and>
             select_points_single d (selectedChildId ui) \<noteq> None))"
proof (intro conjI allI impI)
  fix b dl
  assume "out = ToggledToast b dl"
  with assms have run: "toggleDone env t ui d = (ToggledToast b dl, ui', d')" by simp
  from toggleDone_completed [OF run]
  obtain p where p: "select_points_single d (selectedChildId ui) = Some p"
    and dl: "dl = (if t_is_done t then - t_point t else t_point t)"
    and d': "d' = insert_point_transaction (toggle_row (selectedChildId ui) t)
                     (update_points (selectedChildId ui) (max 0 (p + dl))
                        (d\<lparr>db_tasks := map (\<lambda>x. if t_id x = t_id t
                                                 then x\<lparr>t_is_done := \<not> t_is_done t\<rparr> else x)
                                            (db_tasks d)\<rparr>))"
    and ui': "ui' = ui\<lparr>tasks := map (\<lambda>x. if t_id x = t_id t
                                          then x\<lparr>t_is_done := \<not> t_is_done t\<rparr> else x)
                                     (tasks ui),
                      pointsMap := (pointsMap ui)(selectedChildId ui \<mapsto> max 0 (p + dl))\<rparr>"
    by blast
  have stored: "select_points_single d' (selectedChildId ui) = Some (max 0 (p + dl))"
    unfolding d' select_points_single_insert
    by (rule select_points_single_update_same [where p = p])
       (simp add: select_points_single_tasks p)
  show "\<exists>p. select_points_single d (selectedChildId ui) = Some p \<and>
            dl = (if t_is_done t then - t_point t else t_point t) \<and>
            select_points_single d' (selectedChildId ui) = Some (max 0 (p + dl)) \<and>
            pointsMap ui' (selectedChildId ui) = Some (max 0 (p + dl)) \<and>
            0 \<le> max 0 (p + dl) \<and>
            (p + dl < 0 \<longrightarrow> select_points_single d' (selectedChildId ui) = Some 0)"
    using p dl stored ui' by (intro exI [of _ p]) auto
next
  show "(\<exists>b dl. out = ToggledToast b dl) \<longleftrightarrow>
            (selectedChildId ui \<noteq> [] \<and> t_child_id t = selectedChildId ui \<and>
             te_user env \<noteq> None \<and> te_updateTaskErr env = None \<and>
             te_getPointErr env = None \<and> te_updatePointErr env = None \<and>
             te_txErr env = None \<and> list_ex (\<lambda>x. t_id x = t_id t) (db_tasks d) \<and>
             select_points_single d (selectedChildId ui) \<noteq> None)"
  proof
    assume "\<exists>b dl. out = ToggledToast b dl"
    then obtain b dl where "toggleDone env t ui d = (ToggledToast b dl, ui', d')"
      using assms by auto
    from toggleDone_completed [OF this] show "selectedChildId ui \<noteq> [] \<and> t_child_id t = selectedChildId ui \<and>
             te_user env \<noteq> None \<and> te_updateTaskErr env = None \<and>
             te_getPointErr env = None \<and> te_updatePointErr env = None \<and>
             te_txErr env = None \<and> list_ex (\<lambda>x. t_id x = t_id t) (db_tasks d) \<and>
             select_points_single d (selectedChildId ui) \<noteq> None"
      by auto
  next
    assume a: "selectedChildId ui \<noteq> [] \<and> t_child_id t = selectedChildId ui \<and>
             te_user env \<noteq> None \<and> te_updateTaskErr env = None \<and>
             te_getPointErr env = None \<and> te_updatePointErr env = None \<and>
             te_txErr env = None \<and> list_ex (\<lambda>x. t_id x = t_id t) (db_tasks d) \<and>
             select_points_single d (selectedChildId ui) \<noteq> None"
    then obtain u p where "te_user env = Some u"
      "select_points_single d (selectedChildId ui) = Some p" by auto
    with a have "fst (toggleDone env t ui d) =
           ToggledToast (\<not> t_is_done t) (if t_is_done t then - t_point t else t_point t)"
      by (intro toggleDone_completes) auto
    with assms show "\<exists>b dl. out = ToggledToast b dl" by simp
  qed
qed

text \<open>Hana has 5 points and takes back the dishes, worth 10: the toggle completes and
  she has 0 points.\<close>

theorem toggleDone_stores_clamped_points_witness:
  "toggleDone (all_ok ''p1'') dishes ui0 db0 =
     (ToggledToast False (- 10),
      fst (snd (toggleDone (all_ok ''p1'') dishes ui0 db0)),
      snd (snd (toggleDone (all_ok ''p1'') dishes ui0 db0))) \<and>
   select_points_single db0 ''c1'' = Some 5 \<and>
   select_points_single (snd (snd (toggleDone (all_ok ''p1'') dishes ui0 db0))) ''c1'' = Some 0"
proof -
  have run: "toggleDone (all_ok ''p1'') dishes ui0 db0 =
     (ToggledToast False (- 10),
      fst (snd (toggleDone (all_ok ''p1'') dishes ui0 db0)),
      snd (snd (toggleDone (all_ok ''p1'') dishes ui0 db0)))"
    by (simp add: ex_defs)
  have before: "select_points_single db0 ''c1'' = Some 5"
    by (simp add: ex_defs)
  have sel: "selectedChildId ui0 = ''c1''" by (simp add: ui0_def)
  from toggleDone_stores_clamped_points [OF run] before sel
  have "select_points_single (snd (snd (toggleDone (all_ok ''p1'') dishes ui0 db0))) ''c1'' = Some 0"
    by auto
  with run before show ?thesis by blast
qed

section \<open>The history row of a toggle\<close>

lemma list_ex_set_done:
  "list_ex (\<lambda>x. t_id x = k) (map (\<lambda>x. if t_id x = k then x\<lparr>t_is_done := b\<rparr> else x) ts) =
   list_ex (\<lambda>x. t_id x = k) ts"
  by (induction ts) auto

lemma toggleDone_not_completed:
  assumes "toggleDone env t ui d = (out, ui', d')" "\<nexists>b dl. out = ToggledToast b dl"
  shows "point_transactions d' = point_transactions d"
  using assms
  unfolding toggleDone_def toggle_task_done_def Let_def
  by (auto simp: update_points_def split: if_splits option.splits sum.splits)

text \<open>
  C6, as the code has it. The direction of a toggle is read off the page's copy \<open>t\<close> of
  the task, never off the stored row. A toggle that completes sets the stored flag of the
  task to the opposite of the copy's and appends exactly one history row, for the task's
  child: \<open>+point\<close> of type \<^verbatim>\<open>task_done\<close> when the copy was not done, \<open>-point\<close> of type
  \<^verbatim>\<open>task_undo\<close> when it was done. A toggle that does not complete appends no row: one
  stopped at a guard, at the missing user or at the flag write changes nothing, and one
  stopped at the points read, the balance write or the history insert has the stored flag
  changed all the same.
\<close>

theorem toggleDone_one_history_row:
  assumes "toggleDone env t ui d = (out, ui', d')"
  shows "(\<forall>b dl. out = ToggledToast b dl \<longrightarrow>
            b = (\<not> t_is_done t) \<and>
            list_ex (\<lambda>x. t_id x = t_id t) (db_tasks d') \<and>
            (\<forall>x \<in> set (db_tasks d'). t_id x = t_id t \<longrightarrow> t_is_done x = b) \<and>
            db_tasks d' = map (\<lambda>x. if t_id x = t_id t then x\<lparr>t_is_done := b\<rparr> else x)
                              (db_tasks d) \<and>
            (\<exists>e. point_transactions d' = point_transactions d @ [e] \<and>
                 tx_child_id e = t_child_id t \<and>
                 tx_points e = (if b then t_point t else - t_point t) \<and>
                 tx_type e = (if b then ''task_done'' else ''task_undo'') \<and>
                 dl = tx_points e)) \<and>
         ((\<nexists>b dl. out = ToggledToast b dl) \<longrightarrow> point_transactions d' = point_transactions d) \<and>
         (out = SelectChildNotice \<or> out = OtherChildNotice \<or> out = NoUser \<or>
          (\<exists>e. out = UpdateTaskAlert e) \<longrightarrow> d' = d) \<and>
         ((\<exists>e. out = GetPointAlert e) \<or> (\<exists>e. out = UpdatePointAlert e) \<or>
          (\<exists>e. out = TxAlert e) \<longrightarrow>
            list_ex (\<lambda>x. t_id x = t_id t) (db_tasks d) \<and>
            db_tasks d' = map (\<lambda>x. if t_id x = t_id t
                                    then x\<lparr>t_is_done := \<not> t_is_done t\<rparr> else x)
                              (db_tasks d) \<and>
            point_transactions d' = point_transactions d)"
proof -
  have completed: "b = (\<not> t_is_done t) \<and>
            list_ex (\<lambda>x. t_id x = t_id t) (db_tasks d') \<and>
            (\<forall>x \<in> set (db_tasks d'). t_id x = t_id t \<longrightarrow> t_is_done x = b) \<and>
            db_tasks d' = map (\<lambda>x. if t_id x = t_id t then x\<lparr>t_is_done := b\<rparr> else x)
                              (db_tasks d) \<and>
            (\<exists>e. point_transactions d' = point_transactions d @ [e] \<and>
                 tx_child_id e = t_child_id t \<and>
                 tx_points e = (if b then t_point t else - t_point t) \<and>
                 tx_type e = (if b then ''task_done'' else ''task_undo'') \<and>
                 dl = tx_points e)"
    if "out = ToggledToast b dl" for b dl
  proof -
    from assms that have run: "toggleDone env t ui d = (ToggledToast b dl, ui', d')" by simp
    note c = toggleDone_completed [OF run]
    from c have b: "b = (\<not> t_is_done t)" by simp
    from c obtain p where
      d': "d' = insert_point_transaction (toggle_row (selectedChildId ui) t)
                       (update_points (selectedChildId ui) (max 0 (p + dl))
                          (d\<lparr>db_tasks := map (\<lambda>x. if t_id x = t_id t
                                                   then x\<lparr>t_is_done := \<not> t_is_done t\<rparr> else x)
                                              (db_tasks d)\<rparr>))"
      by blast
    have tasks': "db_tasks d' = map (\<lambda>x. if t_id x = t_id t then x\<lparr>t_is_done := b\<rparr> else x)
                                    (db_tasks d)"
      by (simp add: d' b insert_point_transaction_def update_points_def)
    from c have "list_ex (\<lambda>x. t_id x = t_id t) (db_tasks d)" by simp
    then have ex: "list_ex (\<lambda>x. t_id x = t_id t) (db_tasks d')"
      unfolding tasks' by (simp add: list_ex_set_done)
    have flags: "\<forall>x \<in> set (db_tasks d'). t_id x = t_id t \<longrightarrow> t_is_done x = b"
      unfolding tasks' by auto
    have "point_transactions d' = point_transactions d @ [toggle_row (selectedChildId ui) t]"
      by (simp add: d' insert_point_transaction_def update_points_def)
    with c have row: "\<exists>e. point_transactions d' = point_transactions d @ [e] \<and>
                   tx_child_id e = t_child_id t \<and>
                   tx_points e = (if b then t_point t else - t_point t) \<and>
                   tx_type e = (if b then ''task_done'' else ''task_undo'') \<and>
                   dl = tx_points e"
      by (intro exI [of _ "toggle_row (selectedChildId ui) t"])
         (simp add: toggle_row_def Let_def)
    from b ex flags tasks' row show ?thesis by blast
  qed
  have none: "point_transactions d' = point_transactions d"
    if "\<nexists>b dl. out = ToggledToast b dl"
    using assms that by (rule toggleDone_not_completed)
  have early: "d' = d"
    if "out = SelectChildNotice \<or> out = OtherChildNotice \<or> out = NoUser \<or>
        (\<exists>e. out = UpdateTaskAlert e)"
    using toggleDone_before_flag [OF assms that] by simp
  have late: "list_ex (\<lambda>x. t_id x = t_id t) (db_tasks d) \<and>
            db_tasks d' = map (\<lambda>x. if t_id x = t_id t
                                    then x\<lparr>t_is_done := \<not> t_is_done t\<rparr> else x)
                              (db_tasks d) \<and>
            point_transactions d' = point_transactions d"
    if "(\<exists>e. out = GetPointAlert e) \<or> (\<exists>e. out = UpdatePointAlert e) \<or>
        (\<exists>e. out = TxAlert e)"
  proof -
    from that consider e where "out = GetPointAlert e" | e where "out = UpdatePointAlert e"
      | e where "out = TxAlert e" by blast
    then show ?thesis
    proof cases
      case 1
      with assms have "toggleDone env t ui d = (GetPointAlert e, ui', d')" by simp
      from toggleDone_GetPointAlert [OF this] show ?thesis by auto
    next
      case 2
      with assms have "toggleDone env t ui d = (UpdatePointAlert e, ui', d')" by simp
      from toggleDone_UpdatePointAlert [OF this] show ?thesis by auto
    next
      case 3
      with assms have "toggleDone env t ui d = (TxAlert e, ui', d')" by simp
      from toggleDone_TxAlert [OF this] show ?thesis
        by (auto simp: update_points_def)
    qed
  qed
  from completed none early late show ?thesis by blast
qed

text \<open>Scenario A of the spec, first half: Mio has 0 points and finishes her homework,
  worth 10; one row \<open>+10\<close> of type \<^verbatim>\<open>task_done\<close> is appended.\<close>

theorem toggleDone_one_history_row_witness:
  "fst (toggleDone (all_ok ''p1'') homework uiA dbA) = ToggledToast True 10 \<and>
   map t_is_done (db_tasks (snd (snd (toggleDone (all_ok ''p1'') homework uiA dbA)))) = [True] \<and>
   map tx_points (point_transactions (snd (snd (toggleDone (all_ok ''p1'') homework uiA dbA))))
     = [10] \<and>
   map tx_type (point_transactions (snd (snd (toggleDone (all_ok ''p1'') homework uiA dbA))))
     = [''task_done'']"
proof -
  let ?r = "toggleDone (all_ok ''p1'') homework uiA dbA"
  have out: "fst ?r = ToggledToast True 10"
    by (simp add: ex_defs homework_def uiA_def dbA_def mio_def)
  then have run: "?r = (ToggledToast True 10, fst (snd ?r), snd (snd ?r))"
    by (metis prod.collapse)
  have before: "point_transactions dbA = []" "t_is_done homework = False"
    "t_point homework = 10" "t_id homework = ''t2''"
    by (simp_all add: dbA_def homework_def)
  have ids: "map t_id (db_tasks (snd (snd ?r))) = [''t2'']"
    by (simp add: ex_defs homework_def uiA_def dbA_def mio_def)
  note c = toggleDone_one_history_row [OF run, THEN conjunct1, rule_format, OF refl]
  from c have "\<forall>x \<in> set (db_tasks (snd (snd ?r))).
                 t_id x = t_id homework \<longrightarrow> t_is_done x = True"
    by blast
  then have flags: "\<forall>x \<in> set (db_tasks (snd (snd ?r))). t_id x = ''t2'' \<longrightarrow> t_is_done x"
    unfolding before by simp
  from c obtain e where
    "point_transactions (snd (snd ?r)) = point_transactions dbA @ [e]"
    "tx_points e = (if True then t_point homework else - t_point homework)"
    "tx_type e = (if True then ''task_done'' else ''task_undo'')"
    by blast
  then have e: "point_transactions (snd (snd ?r)) = [e]" "tx_points e = 10"
    "tx_type e = ''task_done''"
    unfolding before by simp_all
  from ids flags have "map t_is_done (db_tasks (snd (snd ?r))) = [True]"
    by (cases "db_tasks (snd (snd ?r))") auto
  with out e show ?thesis by simp
qed

text \<open>
  The claim as the spec states it fails when the history insert returns an error: Mio
  finishes her homework, the homework is stored as done and her points go from 0 to 10,
  and the history has no row.
\<close>

theorem toggleDone_no_history_row_counterexample:
  "map t_is_done (db_tasks dbA) = [False] \<and> map c_points (children dbA) = [0] \<and>
   point_transactions dbA = [] \<and>
   fst (toggleDone ((all_ok ''p1'')\<lparr>te_txErr := Some (SupabaseError ''timeout'')\<rparr>)
          homework uiA dbA) = TxAlert (SupabaseError ''timeout'') \<and>
   map t_is_done (db_tasks (snd (snd (toggleDone
          ((all_ok ''p1'')\<lparr>te_txErr := Some (SupabaseError ''timeout'')\<rparr>)
          homework uiA dbA)))) = [True] \<and>
   map c_points (children (snd (snd (toggleDone
          ((all_ok ''p1'')\<lparr>te_txErr := Some (SupabaseError ''timeout'')\<rparr>)
          homework uiA dbA)))) = [10] \<and>
   point_transactions (snd (snd (toggleDone
          ((all_ok ''p1'')\<lparr>te_txErr := Some (SupabaseError ''timeout'')\<rparr>)
          homework uiA dbA))) = []"
proof -
  let ?r = "toggleDone ((all_ok ''p1'')\<lparr>te_txErr := Some (SupabaseError ''timeout'')\<rparr>)
              homework uiA dbA"
  have before: "map t_is_done (db_tasks dbA) = [False]" "map c_points (children dbA) = [0]"
    "point_transactions dbA = []"
    by (simp_all add: dbA_def homework_def mio_def)
  have out: "fst ?r = TxAlert (SupabaseError ''timeout'')"
    by (simp add: ex_defs homework_def uiA_def dbA_def mio_def)
  have flag: "map t_is_done (db_tasks (snd (snd ?r))) = [True]"
    by (simp add: ex_defs homework_def uiA_def dbA_def mio_def)
  have points: "map c_points (children (snd (snd ?r))) = [10]"
    by (simp add: ex_defs homework_def uiA_def dbA_def mio_def)
  have rows: "point_transactions (snd (snd ?r)) = []"
    by (simp add: ex_defs homework_def uiA_def dbA_def mio_def)
  from before out flag points rows show ?thesis by simp
qed

section \<open>Redemption requests\<close>

text \<open>
  C10. With \<open>current\<close> the points cached for the selected child (0 when the map has
  none): a request issued while \<open>current\<close> is below the reward's required points
  changes nothing in the database and ends in a notice; a request that changes the
  database had \<open>current\<close> at least the required points, and what it changed is one
  appended redemption row with status \<^verbatim>\<open>pending\<close> for that child and reward; and a
  request with a child selected, enough cached points and no error of the insert does
  append such a row.
\<close>

theorem exchangeReward_guarded_by_cached_points:
  assumes "exchangeReward env w ui d = (out, d')"
    and "current = (case rp_pointsMap ui (rp_selectedChildId ui) of None \<Rightarrow> 0 | Some p \<Rightarrow> p)"
  shows "(current < rw_required_points w \<longrightarrow>
            d' = d \<and> (out = NotEnoughPointsNotice \<or> out = ExSelectChildNotice)) \<and>
         (d' \<noteq> d \<longrightarrow>
            rw_required_points w \<le> current \<and>
            (\<exists>row. reward_redemptions d' = reward_redemptions d @ [row] \<and>
                   rr_status row = ''pending'' \<and>
                   rr_child_id row = rp_selectedChildId ui \<and>
                   rr_reward_id row = rw_id w) \<and>
            children d' = children d \<and> point_transactions d' = point_transactions d) \<and>
         (rp_selectedChildId ui \<noteq> [] \<and> rw_required_points w \<le> current \<and>
          ee_insertErr env = None \<longrightarrow>
            out = ExchangedToast (rw_title w) \<and>
            length (reward_redemptions d') = Suc (length (reward_redemptions d)))"
  using assms
  unfolding exchangeReward_def Let_def
  by (auto split: if_splits option.splits)

text \<open>Scenario B of the spec at the request: Taro's page shows 15 points and the game
  costs 20, so nothing is inserted; a toy for 10 is requested and a pending row appears.\<close>

theorem exchangeReward_guarded_by_cached_points_witness:
  "exchangeReward \<lparr>ee_insertErr = None, ee_new_id = 9, ee_now = 400\<rparr> game uiB dbB
     = (NotEnoughPointsNotice, dbB) \<and>
   map rr_status (reward_redemptions (snd (exchangeReward
       \<lparr>ee_insertErr = None, ee_new_id = 9, ee_now = 400\<rparr>
       (game\<lparr>rw_id := 3, rw_title := ''toy'', rw_required_points := 10\<rparr>) uiB dbB)))
     = [''pending'', ''pending'', ''pending'']"
proof -
  let ?env = "\<lparr>ee_insertErr = None, ee_new_id = 9, ee_now = 400\<rparr>"
  let ?toy = "game\<lparr>rw_id := 3, rw_title := ''toy'', rw_required_points := 10\<rparr>"
  have cur: "(15::int) = (case rp_pointsMap uiB (rp_selectedChildId uiB) of
                            None \<Rightarrow> 0 | Some p \<Rightarrow> p)"
    by (simp add: uiB_def)
  have low: "(15::int) < rw_required_points game"
    by (simp add: game_def)
  have r1: "exchangeReward ?env game uiB dbB
              = (fst (exchangeReward ?env game uiB dbB), snd (exchangeReward ?env game uiB dbB))"
    by simp
  from exchangeReward_guarded_by_cached_points [OF r1 cur] low
  have unchanged: "snd (exchangeReward ?env game uiB dbB) = dbB"
    and "fst (exchangeReward ?env game uiB dbB) = NotEnoughPointsNotice
         \<or> fst (exchangeReward ?env game uiB dbB) = ExSelectChildNotice"
    by blast+
  moreover have "fst (exchangeReward ?env game uiB dbB) \<noteq> ExSelectChildNotice"
    by (simp add: exchangeReward_def uiB_def game_def)
  ultimately have first: "exchangeReward ?env game uiB dbB = (NotEnoughPointsNotice, dbB)"
    by (metis prod.collapse)
  have second: "map rr_status (reward_redemptions (snd (exchangeReward ?env ?toy uiB dbB)))
     = [''pending'', ''pending'', ''pending'']"
    by (simp add: exchangeReward_def uiB_def game_def dbB_def game_request_def)
  from first second show ?thesis by simp
qed

section \<open>The list of pending requests\<close>

lemma to_Redemption_simps:
  "ri_status (to_Redemption d r) = rr_status r"
  "ri_requested_at (to_Redemption d r) = rr_requested_at r"
  "ri_child_id (to_Redemption d r) = rr_child_id r"
  "ri_id (to_Redemption d r) = rr_id r"
  by (simp_all add: to_Redemption_def)

text \<open>
  C8. For every state of the table, \<^verbatim>\<open>fetchRows\<close> returns a list unless the request
  itself errs; the list has one item for each row with status \<^verbatim>\<open>pending\<close> and no other,
  in ascending order of \<^verbatim>\<open>requested_at\<close>; the items shown for one child or for all keep
  both properties.
\<close>

theorem fetchRows_pending_oldest_first:
  "(case fetchRows err d of
      Inl e \<Rightarrow> err = Some e
    | Inr rows \<Rightarrow>
        err = None \<and>
        (\<forall>r \<in> set rows. ri_status r = ''pending'') \<and>
        sorted (map ri_requested_at rows) \<and>
        set rows = to_Redemption d ` {r \<in> set (reward_redemptions d). rr_status r = ''pending''} \<and>
        length rows = length (filter (\<lambda>r. rr_status r = ''pending'') (reward_redemptions d)) \<and>
        (\<forall>r \<in> set (visibleItems selected rows). ri_status r = ''pending'') \<and>
        sorted (map ri_requested_at (visibleItems selected rows)))"
proof (cases err)
  case (Some e)
  then show ?thesis by (simp add: fetchRows_def)
next
  case None
  let ?p = "filter (\<lambda>r. rr_status r = ''pending'') (reward_redemptions d)"
  let ?rows = "map (to_Redemption d) (sort_key rr_requested_at ?p)"
  have rows: "fetchRows err d = Inr ?rows"
    using None by (simp add: fetchRows_def)
  have keys: "map ri_requested_at ?rows = map rr_requested_at (sort_key rr_requested_at ?p)"
    by (simp add: comp_def to_Redemption_simps)
  have pending: "\<forall>r \<in> set ?rows. ri_status r = ''pending''"
    by (auto simp: to_Redemption_simps)
  have sorted: "sorted (map ri_requested_at ?rows)"
    unfolding keys by (rule sorted_sort_key)
  have elems: "set ?rows = to_Redemption d ` {r \<in> set (reward_redemptions d). rr_status r = ''pending''}"
    by auto
  have len: "length ?rows = length ?p" by simp
  have vis_sub: "set (visibleItems selected ?rows) \<subseteq> set ?rows"
    by (auto simp: visibleItems_def)
  have vis_sorted: "sorted (map ri_requested_at (visibleItems selected ?rows))"
    using sorted unfolding visibleItems_def
    by (auto simp del: map_map intro: sorted_filter)
  show ?thesis
    unfolding rows using None pending sorted elems len vis_sub vis_sorted
    by (simp only: sum.case) blast
qed

text \<open>Taro's two pending requests come back oldest first, request 8 (time 200) before
  request 7 (time 300), though the table holds them the other way round.\<close>

theorem fetchRows_pending_oldest_first_witness:
  "map rr_id (reward_redemptions dbB) = [7, 8] \<and>
   (case fetchRows None dbB of Inl e \<Rightarrow> False | Inr rows \<Rightarrow>
      map ri_id rows = [8, 7] \<and> sorted (map ri_requested_at rows))"
proof -
  have ids: "map rr_id (reward_redemptions dbB) = [7, 8]"
    by (simp add: dbB_def game_request_def)
  have run: "fetchRows None dbB = Inr (map (to_Redemption dbB)
       [game_request\<lparr>rr_id := 8, rr_requested_at := 200\<rparr>, game_request])"
    by (simp add: fetchRows_def dbB_def game_request_def)
  from fetchRows_pending_oldest_first [of None dbB "''all''"] ids show ?thesis
    unfolding run by (simp add: to_Redemption_simps game_request_def)
qed

section \<open>A toggle that stops at the balance write or at the history row\<close>

text \<open>
  C5, as the code has it. The flag is written first, by a request of its own, and nothing
  takes it back. When the balance write returns an error, the stored flag of the task is
  already the new state while points and history are as before; when the history insert
  returns an error, the flag and the clamped points are both written and the history has
  no row for them. In both cases only the page's own copy of tasks and points stays as it
  was.
\<close>

theorem toggleDone_flag_written_before_ledger:
  assumes "toggleDone env t ui d = (out, ui', d')"
    and "out = UpdatePointAlert e \<or> out = TxAlert e"
  shows "list_ex (\<lambda>x. t_id x = t_id t) (db_tasks d) \<and>
         db_tasks d' = map (\<lambda>x. if t_id x = t_id t then x\<lparr>t_is_done := \<not> t_is_done t\<rparr> else x)
                           (db_tasks d) \<and>
         point_transactions d' = point_transactions d \<and>
         ui' = ui \<and>
         (out = UpdatePointAlert e \<longrightarrow> children d' = children d) \<and>
         (out = TxAlert e \<longrightarrow>
            (\<exists>p. select_points_single d (selectedChildId ui) = Some p \<and>
                 select_points_single d' (selectedChildId ui) =
                   Some (max 0 (p + (if t_is_done t then - t_point t else t_point t)))))"
proof -
  from assms(2) show ?thesis
  proof
    assume o: "out = UpdatePointAlert e"
    with assms(1) show ?thesis
      unfolding toggleDone_def toggle_task_done_def Let_def
      by (auto split: if_splits option.splits sum.splits)
  next
    assume o: "out = TxAlert e"
    with assms(1) have "toggleDone env t ui d = (TxAlert e, ui', d')" by simp
    from toggleDone_TxAlert [OF this] obtain p where
      p: "select_points_single d (selectedChildId ui) = Some p"
      and d': "d' = update_points (selectedChildId ui)
                 (max 0 (p + (if t_is_done t then - t_point t else t_point t)))
                 (d\<lparr>db_tasks := map (\<lambda>x. if t_id x = t_id t
                                          then x\<lparr>t_is_done := \<not> t_is_done t\<rparr> else x)
                                     (db_tasks d)\<rparr>)"
      and rest: "list_ex (\<lambda>x. t_id x = t_id t) (db_tasks d)" "ui' = ui"
      by blast
    have "select_points_single d' (selectedChildId ui) =
            Some (max 0 (p + (if t_is_done t then - t_point t else t_point t)))"
      unfolding d'
      by (rule select_points_single_update_same [where p = p])
         (simp add: select_points_single_tasks p)
    with p rest o show ?thesis
      by (simp add: d' update_points_def)
  qed
qed

text \<open>Hana takes back the dishes and the balance write fails: her points and the
  history are as before, and the dishes are stored as not done.\<close>

theorem toggleDone_flag_written_before_ledger_witness:
  "fst (toggleDone ((all_ok ''p1'')\<lparr>te_updatePointErr := Some (SupabaseError ''timeout'')\<rparr>)
          dishes ui0 db0) = UpdatePointAlert (SupabaseError ''timeout'') \<and>
   db_tasks (snd (snd (toggleDone
          ((all_ok ''p1'')\<lparr>te_updatePointErr := Some (SupabaseError ''timeout'')\<rparr>)
          dishes ui0 db0))) = [dishes\<lparr>t_is_done := False\<rparr>] \<and>
   children (snd (snd (toggleDone
          ((all_ok ''p1'')\<lparr>te_updatePointErr := Some (SupabaseError ''timeout'')\<rparr>)
          dishes ui0 db0))) = [hana]"
proof -
  let ?env = "(all_ok ''p1'')\<lparr>te_updatePointErr := Some (SupabaseError ''timeout'')\<rparr>"
  let ?r = "toggleDone ?env dishes ui0 db0"
  have out: "fst ?r = UpdatePointAlert (SupabaseError ''timeout'')"
    by (simp add: ex_defs)
  then have run: "?r = (UpdatePointAlert (SupabaseError ''timeout''), fst (snd ?r), snd (snd ?r))"
    by (metis prod.collapse)
  have before: "db_tasks db0 = [dishes]" "children db0 = [hana]" "t_is_done dishes"
    by (simp_all add: db0_def dishes_def)
  from toggleDone_flag_written_before_ledger [OF run, of "SupabaseError ''timeout''"] before
  have "db_tasks (snd (snd ?r)) = [dishes\<lparr>t_is_done := False\<rparr>]"
    and "children (snd (snd ?r)) = [hana]"
    by simp_all
  with out show ?thesis by simp
qed

text \<open>
  The claim as the spec states it fails there: the balance write fails and the stored
  flag of the dishes has changed from done to not done.
\<close>

theorem toggleDone_not_atomic_counterexample:
  "fst (toggleDone ((all_ok ''p1'')\<lparr>te_updatePointErr := Some (SupabaseError ''timeout'')\<rparr>)
          dishes ui0 db0) = UpdatePointAlert (SupabaseError ''timeout'') \<and>
   map t_is_done (db_tasks db0) = [True] \<and>
   map t_is_done (db_tasks (snd (snd (toggleDone
          ((all_ok ''p1'')\<lparr>te_updatePointErr := Some (SupabaseError ''timeout'')\<rparr>)
          dishes ui0 db0)))) = [False]"
  by (simp add: ex_defs)

section \<open>Two toggles in a row\<close>

lemma toggleDone_completed_db:
  assumes "toggleDone env t ui d = (ToggledToast b dl, ui', d')"
  shows "point_transactions d' = point_transactions d @ [toggle_row (selectedChildId ui) t]"
    and "db_tasks d' = map (\<lambda>x. if t_id x = t_id t then x\<lparr>t_is_done := \<not> t_is_done t\<rparr> else x)
                           (db_tasks d)"
    and "tasks ui' = map (\<lambda>x. if t_id x = t_id t then x\<lparr>t_is_done := \<not> t_is_done t\<rparr> else x)
                         (tasks ui)"
    and "selectedChildId ui' = selectedChildId ui"
    and "dl = (if t_is_done t then - t_point t else t_point t)"
    and "b = (\<not> t_is_done t)"
    and "\<exists>p. select_points_single d (selectedChildId ui) = Some p \<and>
             select_points_single d' (selectedChildId ui) = Some (max 0 (p + dl)) \<and>
             pointsMap ui' (selectedChildId ui) = Some (max 0 (p + dl))"
    and "\<And>k. k \<noteq> selectedChildId ui \<Longrightarrow>
             select_points_single d' k = select_points_single d k"
    and "map c_id (children d') = map c_id (children d)"
proof -
  note c = toggleDone_completed [OF assms]
  from c obtain p where p: "select_points_single d (selectedChildId ui) = Some p"
    and d': "d' = insert_point_transaction (toggle_row (selectedChildId ui) t)
                     (update_points (selectedChildId ui) (max 0 (p + dl))
                        (d\<lparr>db_tasks := map (\<lambda>x. if t_id x = t_id t
                                                 then x\<lparr>t_is_done := \<not> t_is_done t\<rparr> else x)
                                            (db_tasks d)\<rparr>))"
    and ui': "ui' = ui\<lparr>tasks := map (\<lambda>x. if t_id x = t_id t
                                          then x\<lparr>t_is_done := \<not> t_is_done t\<rparr> else x)
                                     (tasks ui),
                      pointsMap := (pointsMap ui)(selectedChildId ui \<mapsto> max 0 (p + dl))\<rparr>"
    by blast
  show "point_transactions d' = point_transactions d @ [toggle_row (selectedChildId ui) t]"
    by (simp add: d' insert_point_transaction_def update_points_def)
  show "db_tasks d' = map (\<lambda>x. if t_id x = t_id t then x\<lparr>t_is_done := \<not> t_is_done t\<rparr> else x)
                           (db_tasks d)"
    by (simp add: d' insert_point_transaction_def update_points_def)
  show "tasks ui' = map (\<lambda>x. if t_id x = t_id t then x\<lparr>t_is_done := \<not> t_is_done t\<rparr> else x)
                         (tasks ui)"
    by (simp add: ui')
  show "selectedChildId ui' = selectedChildId ui" by (simp add: ui')
  from c show "dl = (if t_is_done t then - t_point t else t_point t)" by simp
  from c show "b = (\<not> t_is_done t)" by simp
  have "select_points_single d' (selectedChildId ui) = Some (max 0 (p + dl))"
    unfolding d' select_points_single_insert
    by (rule select_points_single_update_same [where p = p])
       (simp add: select_points_single_tasks p)
  with p show "\<exists>p. select_points_single d (selectedChildId ui) = Some p \<and>
             select_points_single d' (selectedChildId ui) = Some (max 0 (p + dl)) \<and>
             pointsMap ui' (selectedChildId ui) = Some (max 0 (p + dl))"
    by (simp add: ui')
  show "select_points_single d' k = select_points_single d k" if "k \<noteq> selectedChildId ui" for k
    unfolding d' select_points_single_insert
    by (simp add: select_points_single_update_other [OF that] select_points_single_tasks)
  show "map c_id (children d') = map c_id (children d)"
    by (simp add: d' insert_point_transaction_def update_points_def comp_def if_distrib)
qed

lemma set_done_twice:
  "map (\<lambda>x. if t_id x = k then x\<lparr>t_is_done := b\<rparr> else x)
     (map (\<lambda>x. if t_id x = k then x\<lparr>t_is_done := c\<rparr> else x) ts) =
   map (\<lambda>x. if t_id x = k then x\<lparr>t_is_done := b\<rparr> else x) ts"
  by (induction ts) auto

text \<open>
  C7, as the code has it. Let a toggle of task \<open>t\<close>, the page's copy, complete and then
  a toggle of the same task, as the page now shows it, complete too, starting from points
  \<open>p\<close>. The stored and the displayed flag of the task end at the state the copy \<open>t\<close>
  had: the tasks table is exactly as it was before the two toggles if and only if the
  stored flag agreed with the copy, and likewise the page's list. Exactly two history rows
  were appended, with opposite points. The points are
  \<open>max 0 (max 0 (p + delta) - delta)\<close>, and that is \<open>p\<close> again exactly when no write was
  clamped: \<open>0 \<le> p\<close> and \<open>0 \<le> p + delta\<close>, for \<open>delta\<close> the points of the first toggle.
\<close>

theorem toggleDone_twice:
  assumes "toggleDone env1 t ui d = (ToggledToast b1 dl1, ui1, d1)"
    and "toggleDone env2 (t\<lparr>t_is_done := \<not> t_is_done t\<rparr>) ui1 d1 = (ToggledToast b2 dl2, ui2, d2)"
    and "select_points_single d (selectedChildId ui) = Some p"
  shows "b1 = (\<not> t_is_done t) \<and> b2 = t_is_done t \<and> dl2 = - dl1 \<and>
         db_tasks d2 = map (\<lambda>x. if t_id x = t_id t then x\<lparr>t_is_done := t_is_done t\<rparr> else x)
                           (db_tasks d) \<and>
         tasks ui2 = map (\<lambda>x. if t_id x = t_id t then x\<lparr>t_is_done := t_is_done t\<rparr> else x)
                         (tasks ui) \<and>
         (db_tasks d2 = db_tasks d \<longleftrightarrow>
            (\<forall>x \<in> set (db_tasks d). t_id x = t_id t \<longrightarrow> t_is_done x = t_is_done t)) \<and>
         (tasks ui2 = tasks ui \<longleftrightarrow>
            (\<forall>x \<in> set (tasks ui). t_id x = t_id t \<longrightarrow> t_is_done x = t_is_done t)) \<and>
         (\<exists>e1 e2. point_transactions d2 = point_transactions d @ [e1, e2] \<and>
                  tx_points e1 = dl1 \<and> tx_points e2 = - dl1) \<and>
         select_points_single d2 (selectedChildId ui) = Some (max 0 (max 0 (p + dl1) - dl1)) \<and>
         (select_points_single d2 (selectedChildId ui) = Some p \<longleftrightarrow> 0 \<le> p \<and> 0 \<le> p + dl1)"
proof -
  let ?t' = "t\<lparr>t_is_done := \<not> t_is_done t\<rparr>"
  note f = toggleDone_completed_db [OF assms(1)]
  note s = toggleDone_completed_db [OF assms(2)]
  have sel: "selectedChildId ui1 = selectedChildId ui" by (rule f(4))
  have dl1: "dl1 = (if t_is_done t then - t_point t else t_point t)" by (rule f(5))
  have dl2: "dl2 = - dl1" using s(5) dl1 by simp
  have p1: "select_points_single d1 (selectedChildId ui) = Some (max 0 (p + dl1))"
    using f(7) assms(3) by auto
  have p2: "select_points_single d2 (selectedChildId ui) = Some (max 0 (max 0 (p + dl1) - dl1))"
    using s(7) p1 dl2 unfolding sel by auto
  have rows: "point_transactions d2 =
                point_transactions d @ [toggle_row (selectedChildId ui) t,
                                        toggle_row (selectedChildId ui) ?t']"
    using f(1) s(1) unfolding sel by simp
  have r1: "tx_points (toggle_row (selectedChildId ui) t) = dl1"
    by (simp add: toggle_row_def Let_def dl1)
  have r2: "tx_points (toggle_row (selectedChildId ui) ?t') = - dl1"
    by (simp add: toggle_row_def Let_def dl1)
  have dbt: "db_tasks d2 = map (\<lambda>x. if t_id x = t_id t then x\<lparr>t_is_done := t_is_done t\<rparr> else x)
                           (db_tasks d)"
    using s(2) unfolding f(2) by (simp add: set_done_twice del: map_map)
  have uit: "tasks ui2 = map (\<lambda>x. if t_id x = t_id t then x\<lparr>t_is_done := t_is_done t\<rparr> else x)
                         (tasks ui)"
    using s(3) unfolding f(3) by (simp add: set_done_twice del: map_map)
  have dbs: "db_tasks d2 = db_tasks d \<longleftrightarrow>
               (\<forall>x \<in> set (db_tasks d). t_id x = t_id t \<longrightarrow> t_is_done x = t_is_done t)"
    unfolding dbt by (rule set_done_in_sync)
  have uis: "tasks ui2 = tasks ui \<longleftrightarrow>
               (\<forall>x \<in> set (tasks ui). t_id x = t_id t \<longrightarrow> t_is_done x = t_is_done t)"
    unfolding uit by (rule set_done_in_sync)
  have same: "select_points_single d2 (selectedChildId ui) = Some p \<longleftrightarrow> 0 \<le> p \<and> 0 \<le> p + dl1"
    unfolding p2 by auto
  have pair: "\<exists>e1 e2. point_transactions d2 = point_transactions d @ [e1, e2] \<and>
                  tx_points e1 = dl1 \<and> tx_points e2 = - dl1"
    using rows r1 r2 by blast
  have b2: "b2 = t_is_done t" using s(6) by simp
  show ?thesis
    using f(6) b2 dl2 dbt uit dbs uis pair p2 same
    by - (intro conjI, assumption+)
qed

text \<open>Scenario A of the spec: Mio, with 0 points, finishes her homework (10) and takes
  it back: the homework is not done again, she has 0 points, and the history holds
  \<open>+10\<close> and \<open>-10\<close>.\<close>

theorem toggleDone_twice_witness:
  "select_points_single dbA ''c3'' = Some 0 \<and>
   fst (toggleDone (all_ok ''p1'') homework uiA dbA) = ToggledToast True 10 \<and>
   fst (toggleDone (all_ok ''p1'') (homework\<lparr>t_is_done := True\<rparr>)
          (fst (snd (toggleDone (all_ok ''p1'') homework uiA dbA)))
          (snd (snd (toggleDone (all_ok ''p1'') homework uiA dbA)))) = ToggledToast False (- 10) \<and>
   select_points_single
     (snd (snd (toggleDone (all_ok ''p1'') (homework\<lparr>t_is_done := True\<rparr>)
          (fst (snd (toggleDone (all_ok ''p1'') homework uiA dbA)))
          (snd (snd (toggleDone (all_ok ''p1'') homework uiA dbA)))))) ''c3'' = Some 0 \<and>
   db_tasks
     (snd (snd (toggleDone (all_ok ''p1'') (homework\<lparr>t_is_done := True\<rparr>)
          (fst (snd (toggleDone (all_ok ''p1'') homework uiA dbA)))
          (snd (snd (toggleDone (all_ok ''p1'') homework uiA dbA)))))) = [homework]"
proof -
  let ?r1 = "toggleDone (all_ok ''p1'') homework uiA dbA"
  let ?r2 = "toggleDone (all_ok ''p1'') (homework\<lparr>t_is_done := True\<rparr>)
               (fst (snd ?r1)) (snd (snd ?r1))"
  have o1: "fst ?r1 = ToggledToast True 10"
    by (simp add: ex_defs homework_def uiA_def dbA_def mio_def)
  have o2: "fst ?r2 = ToggledToast False (- 10)"
    by (simp add: ex_defs homework_def uiA_def dbA_def mio_def)
  have run1: "?r1 = (ToggledToast True 10, fst (snd ?r1), snd (snd ?r1))"
    using o1 by (metis prod.collapse)
  have run2: "toggleDone (all_ok ''p1'') (homework\<lparr>t_is_done := \<not> t_is_done homework\<rparr>)
                (fst (snd ?r1)) (snd (snd ?r1))
              = (ToggledToast False (- 10), fst (snd ?r2), snd (snd ?r2))"
    using o2 by (simp add: homework_def) (metis prod.collapse)
  have p: "select_points_single dbA (selectedChildId uiA) = Some 0"
    by (simp add: select_points_single_def dbA_def uiA_def mio_def)
  have sel: "selectedChildId uiA = ''c3''" by (simp add: uiA_def)
  have tasks: "db_tasks dbA = [homework]" by (simp add: dbA_def)
  have in_sync: "\<forall>x \<in> set (db_tasks dbA). t_id x = t_id homework \<longrightarrow>
                   t_is_done x = t_is_done homework"
    by (simp add: tasks)
  note twice = toggleDone_twice [OF run1 run2 p]
  from twice have "select_points_single (snd (snd ?r2)) (selectedChildId uiA)
                     = Some (max 0 (max 0 (0 + 10) - 10))"
    by blast
  then have points: "select_points_single (snd (snd ?r2)) ''c3'' = Some 0"
    unfolding sel by simp
  from twice have "db_tasks (snd (snd ?r2)) = db_tasks dbA \<longleftrightarrow>
                     (\<forall>x \<in> set (db_tasks dbA). t_id x = t_id homework \<longrightarrow>
                        t_is_done x = t_is_done homework)"
    by blast
  with in_sync have "db_tasks (snd (snd ?r2)) = [homework]"
    unfolding tasks by blast
  with o1 o2 p sel points show ?thesis by simp
qed

text \<open>
  The claim as the spec states it fails when the first toggle is clamped: Hana has 5
  points, takes back the dishes (10) and marks them done again, and now has 10 points.
\<close>

theorem toggleDone_twice_counterexample:
  "select_points_single db0 ''c1'' = Some 5 \<and>
   fst (toggleDone (all_ok ''p1'') dishes ui0 db0) = ToggledToast False (- 10) \<and>
   fst (toggleDone (all_ok ''p1'') (dishes\<lparr>t_is_done := False\<rparr>)
          (fst (snd (toggleDone (all_ok ''p1'') dishes ui0 db0)))
          (snd (snd (toggleDone (all_ok ''p1'') dishes ui0 db0)))) = ToggledToast True 10 \<and>
   select_points_single
     (snd (snd (toggleDone (all_ok ''p1'') (dishes\<lparr>t_is_done := False\<rparr>)
          (fst (snd (toggleDone (all_ok ''p1'') dishes ui0 db0)))
          (snd (snd (toggleDone (all_ok ''p1'') dishes ui0 db0)))))) ''c1'' = Some 10"
  by (simp add: ex_defs)

section \<open>Stored points and the sum of the history\<close>

lemma ledger_sum_insert:
  "ledger_sum (insert_point_transaction row d) k =
     ledger_sum d k + (if tx_child_id row = k then tx_points row else 0)"
  by (simp add: ledger_sum_def insert_point_transaction_def)

lemma ledger_sum_cong:
  "point_transactions d' = point_transactions d \<Longrightarrow> ledger_sum d' k = ledger_sum d k"
  by (simp add: ledger_sum_def)

lemma ledger_consistent_cong:
  "children d' = children d \<Longrightarrow> point_transactions d' = point_transactions d \<Longrightarrow>
   ledger_consistent d' = ledger_consistent d"
  by (simp add: ledger_consistent_def ledger_sum_def)

lemma select_points_single_row:
  assumes "select_points_single d k = Some p" "c \<in> set (children d)" "c_id c = k"
  shows "c_points c = p"
proof -
  from assms(1) obtain c0 where c0: "filter (\<lambda>c. c_id c = k) (children d) = [c0]" "c_points c0 = p"
    by (auto simp: select_points_single_def split: list.splits)
  from assms(2,3) have "c \<in> set (filter (\<lambda>c. c_id c = k) (children d))" by simp
  with c0 show ?thesis by simp
qed

lemma toggleDone_stopped_early:
  assumes "toggleDone env t ui d = (out, ui', d')"
    and "\<nexists>b dl. out = ToggledToast b dl" "\<nexists>e. out = TxAlert e"
  shows "children d' = children d \<and> point_transactions d' = point_transactions d"
  using assms
  unfolding toggleDone_def toggle_task_done_def Let_def
  by (auto split: if_splits option.splits sum.splits)

lemma exchangeReward_ledger:
  "children (snd (exchangeReward env w ui d)) = children d \<and>
   point_transactions (snd (exchangeReward env w ui d)) = point_transactions d"
  unfolding exchangeReward_def Let_def
  by (auto split: option.splits)

lemma toggleDone_exact_consistent:
  assumes run: "toggleDone env t ui d = (ToggledToast b dl, ui', d')"
    and p: "select_points_single d (selectedChildId ui) = Some p" "0 \<le> p + dl"
    and inv: "ledger_consistent d"
  shows "ledger_consistent d'"
proof -
  let ?sel = "selectedChildId ui"
  from toggleDone_completed [OF run] p(1)
  have d': "d' = insert_point_transaction (toggle_row ?sel t)
                     (update_points ?sel (max 0 (p + dl))
                        (d\<lparr>db_tasks := map (\<lambda>x. if t_id x = t_id t
                                                 then x\<lparr>t_is_done := \<not> t_is_done t\<rparr> else x)
                                            (db_tasks d)\<rparr>))"
    and dl: "dl = (if t_is_done t then - t_point t else t_point t)"
    by auto
  have row: "tx_child_id (toggle_row ?sel t) = ?sel" "tx_points (toggle_row ?sel t) = dl"
    by (simp_all add: toggle_row_def Let_def dl)
  have sum: "ledger_sum d' k = ledger_sum d k + (if k = ?sel then dl else 0)" for k
    unfolding d' ledger_sum_insert row
    by (auto simp: ledger_sum_def update_points_def)
  have ch: "children d' = map (\<lambda>c. if c_id c = ?sel then c\<lparr>c_points := p + dl\<rparr> else c) (children d)"
    using p(2) by (simp add: d' insert_point_transaction_def update_points_def max_def)
  have "c_points c' = ledger_sum d' (c_id c')" if "c' \<in> set (children d')" for c'
  proof -
    from that obtain c where c: "c \<in> set (children d)"
      and c': "c' = (if c_id c = ?sel then c\<lparr>c_points := p + dl\<rparr> else c)"
      unfolding ch by auto
    from inv c have old: "c_points c = ledger_sum d (c_id c)"
      by (simp add: ledger_consistent_def list_all_iff)
    show ?thesis
    proof (cases "c_id c = ?sel")
      case True
      with select_points_single_row [OF p(1) c] have "c_points c = p" by simp
      with True old c' show ?thesis by (simp add: sum)
    next
      case False
      with old c' show ?thesis by (simp add: sum)
    qed
  qed
  then show ?thesis
    by (simp add: ledger_consistent_def list_all_iff)
qed

lemma exact_op_consistent:
  assumes "ledger_consistent d" "exact_op x d"
  shows "ledger_consistent (apply_op x d)"
proof (cases x)
  case (Toggle env t ui)
  obtain out ui' d' where run: "toggleDone env t ui d = (out, ui', d')"
    by (cases "toggleDone env t ui d") auto
  have after: "apply_op x d = d'"
    by (simp add: Toggle run)
  from assms(2) have exact:
    "(case out of
        ToggledToast b dl \<Rightarrow>
          (case select_points_single d (selectedChildId ui) of
             None \<Rightarrow> False
           | Some p \<Rightarrow> 0 \<le> p + dl)
      | TxAlert e \<Rightarrow> False
      | _ \<Rightarrow> True)"
    unfolding Toggle exact_op.simps run fst_conv .
  show ?thesis
  proof (cases "\<exists>b dl. out = ToggledToast b dl")
    case True
    then obtain b dl where out: "out = ToggledToast b dl" by blast
    with exact obtain p where
      p: "select_points_single d (selectedChildId ui) = Some p" "0 \<le> p + dl"
      by (cases "select_points_single d (selectedChildId ui)") simp_all
    from toggleDone_exact_consistent [OF run [unfolded out] p assms(1)]
    show ?thesis unfolding after .
  next
    case False
    have no_tx: "\<nexists>e. out = TxAlert e"
    proof
      assume "\<exists>e. out = TxAlert e"
      then obtain e where "out = TxAlert e" ..
      with exact show False by simp
    qed
    from toggleDone_stopped_early [OF run False no_tx]
    have "children d' = children d" "point_transactions d' = point_transactions d"
      by simp_all
    from ledger_consistent_cong [OF this] assms(1) show ?thesis
      unfolding after by simp
  qed
next
  case (Exchange env w ui)
  have "children (apply_op x d) = children d"
    "point_transactions (apply_op x d) = point_transactions d"
    unfolding Exchange apply_op.simps by (simp_all only: exchangeReward_ledger)
  from ledger_consistent_cong [OF this] assms(1) show ?thesis by simp
qed

text \<open>
  C2, as the code has it. Take any sequence of toggles and redemption requests, each from
  any page state and with any answers of the backend, in which every toggle is exact: it
  either completes with \<open>0 \<le> points + delta\<close>, so that nothing is clamped, or stops
  before the balance write. If every child's stored points equal the sum of the child's
  history rows before the sequence, they do after it.
\<close>

theorem exact_run_keeps_ledger_consistent:
  assumes "ledger_consistent d" "exact_run ops d"
  shows "ledger_consistent (run ops d)"
  using assms
proof (induction ops arbitrary: d)
  case Nil
  then show ?case by simp
next
  case (Cons x xs)
  from Cons.prems have "ledger_consistent (apply_op x d)" "exact_run xs (apply_op x d)"
    by (simp_all add: exact_op_consistent)
  then show ?case by (simp add: Cons.IH)
qed

text \<open>Scenario A of the spec as a sequence: Mio finishes her homework, asks for a
  reward, and takes the homework back.\<close>

theorem exact_run_keeps_ledger_consistent_witness:
  "ledger_consistent dbA \<and>
   exact_run [Toggle (all_ok ''p1'') homework uiA,
              Exchange \<lparr>ee_insertErr = None, ee_new_id = 4, ee_now = 50\<rparr> sticker
                \<lparr>rp_selectedChildId = ''c3'', rp_rewards = [], rp_pointsMap = [''c3'' \<mapsto> 10]\<rparr>,
              Toggle (all_ok ''p1'') (homework\<lparr>t_is_done := True\<rparr>) uiA] dbA \<and>
   ledger_consistent
     (run [Toggle (all_ok ''p1'') homework uiA,
           Exchange \<lparr>ee_insertErr = None, ee_new_id = 4, ee_now = 50\<rparr> sticker
             \<lparr>rp_selectedChildId = ''c3'', rp_rewards = [], rp_pointsMap = [''c3'' \<mapsto> 10]\<rparr>,
           Toggle (all_ok ''p1'') (homework\<lparr>t_is_done := True\<rparr>) uiA] dbA)"
proof -
  let ?env = "\<lparr>ee_insertErr = None, ee_new_id = 4, ee_now = 50\<rparr>"
  let ?page = "\<lparr>rp_selectedChildId = ''c3'', rp_rewards = [], rp_pointsMap = [''c3'' \<mapsto> 10]\<rparr>"
  let ?d1 = "snd (snd (toggleDone (all_ok ''p1'') homework uiA dbA))"
  let ?d2 = "snd (exchangeReward ?env sticker ?page ?d1)"
  let ?undo = "homework\<lparr>t_is_done := True\<rparr>"
  have start: "ledger_consistent dbA"
    by (simp add: ledger_consistent_def ledger_sum_def dbA_def mio_def)
  have sel: "selectedChildId uiA = ''c3''" by (simp add: uiA_def)
  have o1: "fst (toggleDone (all_ok ''p1'') homework uiA dbA) = ToggledToast True 10"
    by (simp add: ex_defs homework_def uiA_def dbA_def mio_def)
  have p1: "select_points_single dbA ''c3'' = Some 0"
    by (simp add: select_points_single_def dbA_def mio_def)
  have o3: "fst (toggleDone (all_ok ''p1'') ?undo uiA ?d2) = ToggledToast False (- 10)"
    by (simp add: ex_defs exchangeReward_def homework_def uiA_def dbA_def mio_def)
  have p3: "select_points_single ?d2 ''c3'' = Some 10"
    by (simp add: ex_defs exchangeReward_def homework_def uiA_def dbA_def mio_def)
  have exact: "exact_run [Toggle (all_ok ''p1'') homework uiA, Exchange ?env sticker ?page,
                          Toggle (all_ok ''p1'') ?undo uiA] dbA"
    unfolding exact_run.simps exact_op.simps apply_op.simps o1 o3 sel p1 p3
    by simp
  from exact_run_keeps_ledger_consistent [OF start exact] start exact
  show ?thesis by simp
qed

text \<open>
  The claim as the spec states it fails when a toggle is clamped: Hana's 5 points equal
  the sum of her history, \<open>10 - 5\<close>; she takes back the dishes (10), her points become 0
  and the history sums to \<open>-5\<close>.
\<close>

theorem ledger_consistent_counterexample:
  "ledger_consistent db0 \<and>
   fst (toggleDone (all_ok ''p1'') dishes ui0 db0) = ToggledToast False (- 10) \<and>
   map c_points (children (snd (snd (toggleDone (all_ok ''p1'') dishes ui0 db0)))) = [0] \<and>
   ledger_sum (snd (snd (toggleDone (all_ok ''p1'') dishes ui0 db0))) ''c1'' = - 5 \<and>
   \<not> ledger_consistent (snd (snd (toggleDone (all_ok ''p1'') dishes ui0 db0)))"
proof -
  let ?d = "snd (snd (toggleDone (all_ok ''p1'') dishes ui0 db0))"
  have start: "ledger_consistent db0"
    by (simp add: ledger_consistent_def ledger_sum_def db0_def hana_def spend_row_def)
  have out: "fst (toggleDone (all_ok ''p1'') dishes ui0 db0) = ToggledToast False (- 10)"
    by (simp add: ex_defs)
  have ch: "children ?d = [hana\<lparr>c_points := 0\<rparr>]"
    by (simp add: ex_defs)
  have rows: "map (\<lambda>e. (tx_child_id e, tx_points e)) (point_transactions ?d)
                = [(''c1'', 10), (''c1'', - 5), (''c1'', - 10)]"
    by (simp add: ex_defs)
  have "ledger_sum ?d ''c1'' =
          sum_list (map snd (filter (\<lambda>x. fst x = ''c1'')
            (map (\<lambda>e. (tx_child_id e, tx_points e)) (point_transactions ?d))))"
    unfolding ledger_sum_def by (simp add: filter_map comp_def)
  then have sum: "ledger_sum ?d ''c1'' = - 5"
    unfolding rows by simp
  have "\<not> ledger_consistent ?d"
    unfolding ledger_consistent_def ch by (simp add: sum hana_def)
  with start out ch sum show ?thesis by simp
qed

section \<open>Approval on the simple page\<close>

lemma approve_result:
  assumes "rewards r = Some w"
  shows "approve env r (list, d) =
           (ApproveReturned,
            (case ae_selectErr env of
               Some e \<Rightarrow> []
             | None \<Rightarrow> select_pending
                 ((case ae_insertErr env of
                     Some e \<Rightarrow> (\<lambda>x. x)
                   | None \<Rightarrow> insert_point_transaction
                       (spend_row (rr_child_id r) (rr_id r) (rw_required_points w)))
                  ((case ae_updateErr env of
                      Some e \<Rightarrow> (\<lambda>x. x)
                    | None \<Rightarrow> update_status (rr_id r) ''approved'') d))),
            (case ae_insertErr env of
               Some e \<Rightarrow> (\<lambda>x. x)
             | None \<Rightarrow> insert_point_transaction
                 (spend_row (rr_child_id r) (rr_id r) (rw_required_points w)))
              ((case ae_updateErr env of
                  Some e \<Rightarrow> (\<lambda>x. x)
                | None \<Rightarrow> update_status (rr_id r) ''approved'') d))"
  using assms
  by (simp add: approve_def Let_def split: option.splits)

lemma spend_entries_insert:
  "spend_entries (insert_point_transaction (spend_row c rid n) d) rid =
     spend_entries d rid @ [spend_row c rid n]"
  by (simp add: spend_entries_def insert_point_transaction_def spend_row_def)

lemma spend_entries_update_status:
  "spend_entries (update_status rid s d) k = spend_entries d k"
  by (simp add: spend_entries_def update_status_def)

lemma point_transactions_update_status:
  "point_transactions (update_status rid s d) = point_transactions d"
  by (simp add: update_status_def)

lemma reward_redemptions_insert:
  "reward_redemptions (insert_point_transaction row d) = reward_redemptions d"
  by (simp add: insert_point_transaction_def)

text \<open>
  C3, as the code has it. \<^verbatim>\<open>approve\<close> issues the status update and the history insert
  as two requests and looks at the error of neither. A call whose update succeeds leaves
  every row of that id with status \<^verbatim>\<open>approved\<close>, and a call whose insert succeeds
  appends exactly one spend row for the id, so the spend rows of a redemption count the
  calls, not the redemption. A failed update leaves the redemptions as they were, a failed
  insert leaves the history as it was, each whatever became of the other request.
\<close>

theorem approve_two_independent_writes:
  assumes "approve env r (list, d) = (out, list', d')" and "rewards r = Some w"
  shows "out = ApproveReturned \<and>
         (ae_updateErr env = None \<longrightarrow>
            reward_redemptions d' =
              map (\<lambda>x. if rr_id x = rr_id r then x\<lparr>rr_status := ''approved''\<rparr> else x)
                  (reward_redemptions d) \<and>
            (\<forall>x \<in> set (reward_redemptions d'). rr_id x = rr_id r \<longrightarrow> rr_status x = ''approved'')) \<and>
         (ae_updateErr env \<noteq> None \<longrightarrow> reward_redemptions d' = reward_redemptions d) \<and>
         (ae_insertErr env = None \<longrightarrow>
            point_transactions d' = point_transactions d @
              [spend_row (rr_child_id r) (rr_id r) (rw_required_points w)] \<and>
            length (spend_entries d' (rr_id r)) = Suc (length (spend_entries d (rr_id r)))) \<and>
         (ae_insertErr env \<noteq> None \<longrightarrow> point_transactions d' = point_transactions d)"
proof -
  note res = assms(1) [unfolded approve_result [OF assms(2)]]
  from res have out: "out = ApproveReturned" by simp
  from res have d': "d' = (case ae_insertErr env of
               Some e \<Rightarrow> (\<lambda>x. x)
             | None \<Rightarrow> insert_point_transaction
                 (spend_row (rr_child_id r) (rr_id r) (rw_required_points w)))
              ((case ae_updateErr env of
                  Some e \<Rightarrow> (\<lambda>x. x)
                | None \<Rightarrow> update_status (rr_id r) ''approved'') d)"
    by simp
  have rr: "reward_redemptions d' =
              reward_redemptions ((case ae_updateErr env of
                  Some e \<Rightarrow> (\<lambda>x. x)
                | None \<Rightarrow> update_status (rr_id r) ''approved'') d)"
    unfolding d' by (simp add: reward_redemptions_insert split: option.splits)
  have u1: "ae_updateErr env = None \<longrightarrow>
            reward_redemptions d' =
              map (\<lambda>x. if rr_id x = rr_id r then x\<lparr>rr_status := ''approved''\<rparr> else x)
                  (reward_redemptions d)"
    unfolding rr by (simp add: update_status_def)
  then have u2: "ae_updateErr env = None \<longrightarrow>
            (\<forall>x \<in> set (reward_redemptions d'). rr_id x = rr_id r \<longrightarrow> rr_status x = ''approved'')"
    by auto
  have u3: "ae_updateErr env \<noteq> None \<longrightarrow> reward_redemptions d' = reward_redemptions d"
    unfolding rr by auto
  have i1: "ae_insertErr env = None \<longrightarrow>
            point_transactions d' = point_transactions d @
              [spend_row (rr_child_id r) (rr_id r) (rw_required_points w)]"
    unfolding d'
    by (auto simp: insert_point_transaction_def point_transactions_update_status
             split: option.splits)
  have i2: "ae_insertErr env = None \<longrightarrow>
            length (spend_entries d' (rr_id r)) = Suc (length (spend_entries d (rr_id r)))"
    unfolding d'
    by (auto simp: spend_entries_insert spend_entries_update_status split: option.splits)
  have i3: "ae_insertErr env \<noteq> None \<longrightarrow> point_transactions d' = point_transactions d"
    unfolding d'
    by (auto simp: point_transactions_update_status split: option.splits)
  from out u1 u2 u3 i1 i2 i3 show ?thesis by blast
qed

text \<open>Scenario C of the spec, on Taro's request 7: after one approval the request is
  approved and has one spend row, of \<open>-20\<close>.\<close>

theorem approve_two_independent_writes_witness:
  "map rr_status (reward_redemptions
      (snd (snd (approve approve_ok (with_reward dbB game_request) (select_pending dbB, dbB)))))
     = [''approved'', ''pending''] \<and>
   map tx_points (spend_entries
      (snd (snd (approve approve_ok (with_reward dbB game_request) (select_pending dbB, dbB)))) 7)
     = [- 20]"
proof -
  let ?r = "with_reward dbB game_request"
  let ?res = "approve approve_ok ?r (select_pending dbB, dbB)"
  have rw: "rewards ?r = Some game"
    by (simp add: with_reward_def dbB_def game_request_def game_def
                  reward_redemption.extend_def redemption_with_reward.fields_def)
  have r: "rr_id ?r = 7" "rr_child_id ?r = ''c2''"
    by (simp_all add: with_reward_def game_request_def reward_redemption.extend_def)
  have run: "?res = (fst ?res, fst (snd ?res), snd (snd ?res))" by simp
  have ok: "ae_updateErr approve_ok = None" "ae_insertErr approve_ok = None"
    by (simp_all add: approve_ok_def)
  have before: "map rr_id (reward_redemptions dbB) = [7, 8]"
    "map rr_status (reward_redemptions dbB) = [''pending'', ''pending'']"
    "spend_entries dbB 7 = []"
    by (simp_all add: dbB_def game_request_def spend_entries_def)
  from approve_two_independent_writes [OF run rw] ok
  have rows: "reward_redemptions (snd (snd ?res)) =
          map (\<lambda>x. if rr_id x = 7 then x\<lparr>rr_status := ''approved''\<rparr> else x)
              (reward_redemptions dbB)"
    and hist: "point_transactions (snd (snd ?res)) =
          point_transactions dbB @ [spend_row ''c2'' 7 (rw_required_points game)]"
    unfolding r by simp_all
  have "map rr_status (reward_redemptions (snd (snd ?res))) = [''approved'', ''pending'']"
    unfolding rows by (simp add: dbB_def game_request_def)
  moreover have "map tx_points (spend_entries (snd (snd ?res)) 7) = [- 20]"
    unfolding spend_entries_def hist
    by (simp add: dbB_def spend_row_def game_def)
  ultimately show ?thesis by simp
qed

text \<open>
  The claim as the spec states it fails both ways. Approving Taro's request 7 twice, from
  two lists that both show it, leaves two spend rows for it; and an approval whose insert
  fails leaves the request approved with no spend row.
\<close>

theorem approve_spend_rows_counterexample:
  "length (spend_entries
      (snd (snd (approve approve_ok (with_reward dbB game_request)
         (snd (approve approve_ok (with_reward dbB game_request) (select_pending dbB, dbB))))))
      7) = 2 \<and>
   map rr_status (reward_redemptions
      (snd (snd (approve (approve_ok\<lparr>ae_insertErr := Some (SupabaseError ''timeout'')\<rparr>)
         (with_reward dbB game_request) (select_pending dbB, dbB)))))
     = [''approved'', ''pending''] \<and>
   spend_entries
      (snd (snd (approve (approve_ok\<lparr>ae_insertErr := Some (SupabaseError ''timeout'')\<rparr>)
         (with_reward dbB game_request) (select_pending dbB, dbB)))) 7 = []"
proof -
  let ?r = "with_reward dbB game_request"
  have rw: "rewards ?r = Some game"
    by (simp add: with_reward_def dbB_def game_request_def game_def
                  reward_redemption.extend_def redemption_with_reward.fields_def)
  have r: "rr_id ?r = 7" "rr_child_id ?r = ''c2''"
    by (simp_all add: with_reward_def game_request_def reward_redemption.extend_def)
  have none: "spend_entries dbB 7 = []"
    by (simp add: dbB_def spend_entries_def)
  have twice: "length (spend_entries
      (snd (snd (approve approve_ok ?r (snd (approve approve_ok ?r (select_pending dbB, dbB))))))
      7) = 2"
    unfolding approve_result [OF rw] snd_conv r
    by (simp add: approve_ok_def spend_entries_insert spend_entries_update_status none)
  have failed: "snd (snd (approve (approve_ok\<lparr>ae_insertErr := Some (SupabaseError ''timeout'')\<rparr>)
                   ?r (select_pending dbB, dbB))) = update_status 7 ''approved'' dbB"
    unfolding approve_result [OF rw] snd_conv r
    by (simp add: approve_ok_def)
  have "map rr_status (reward_redemptions (update_status 7 ''approved'' dbB))
          = [''approved'', ''pending'']"
    by (simp add: update_status_def dbB_def game_request_def)
  with twice none show ?thesis
    unfolding failed by (simp add: spend_entries_update_status)
qed

section \<open>Approval of a request that is not pending\<close>




section \<open>A debit larger than the points\<close>

text \<open>
  C1, as the code has it. No operation refuses a debit. A toggle to not done whose
  debit exceeds the child's points \<open>p\<close> completes when the guards pass and no request
  errs: it stores 0 points, stores the task as not done and appends the history row of
  \<open>-point\<close>. An approval on the simple page whose two writes succeed sets the request to
  approved and appends the spend row of \<open>-required_points\<close>, also when the reward costs
  more than the child has; it never reads the points.
\<close>

theorem debit_below_zero_not_refused:
  "(selectedChildId ui \<noteq> [] \<and> t_child_id t = selectedChildId ui \<and> te_user tenv = Some u \<and>
    te_updateTaskErr tenv = None \<and> te_getPointErr tenv = None \<and>
    te_updatePointErr tenv = None \<and> te_txErr tenv = None \<and>
    list_ex (\<lambda>x. t_id x = t_id t) (db_tasks d) \<and> t_is_done t \<and>
    select_points_single d (selectedChildId ui) = Some p \<and> p - t_point t < 0 \<longrightarrow>
      fst (toggleDone tenv t ui d) = ToggledToast False (- t_point t) \<and>
      select_points_single (snd (snd (toggleDone tenv t ui d))) (selectedChildId ui) = Some 0 \<and>
      (\<forall>x \<in> set (db_tasks (snd (snd (toggleDone tenv t ui d)))).
          t_id x = t_id t \<longrightarrow> \<not> t_is_done x) \<and>
      point_transactions (snd (snd (toggleDone tenv t ui d))) =
        point_transactions d @ [toggle_row (selectedChildId ui) t] \<and>
      tx_points (toggle_row (selectedChildId ui) t) = - t_point t) \<and>
   (rewards r = Some w \<and> ae_updateErr aenv = None \<and> ae_insertErr aenv = None \<and>
    select_points_single d (rr_child_id r) = Some q \<and> q - rw_required_points w < 0 \<longrightarrow>
      fst (approve aenv r (list, d)) = ApproveReturned \<and>
      (\<forall>y \<in> set (reward_redemptions (snd (snd (approve aenv r (list, d))))).
          rr_id y = rr_id r \<longrightarrow> rr_status y = ''approved'') \<and>
      point_transactions (snd (snd (approve aenv r (list, d)))) =
        point_transactions d @
          [spend_row (rr_child_id r) (rr_id r) (rw_required_points w)])"
proof (rule conjI; rule impI)
  assume a: "selectedChildId ui \<noteq> [] \<and> t_child_id t = selectedChildId ui \<and> te_user tenv = Some u \<and>
    te_updateTaskErr tenv = None \<and> te_getPointErr tenv = None \<and>
    te_updatePointErr tenv = None \<and> te_txErr tenv = None \<and>
    list_ex (\<lambda>x. t_id x = t_id t) (db_tasks d) \<and> t_is_done t \<and>
    select_points_single d (selectedChildId ui) = Some p \<and> p - t_point t < 0"
  let ?res = "toggleDone tenv t ui d"
  from a have "fst ?res =
           ToggledToast (\<not> t_is_done t) (if t_is_done t then - t_point t else t_point t)"
    by (intro toggleDone_completes [where u = u and p = p]) simp_all
  with a have out: "fst ?res = ToggledToast False (- t_point t)" by simp
  then have run: "?res = (ToggledToast False (- t_point t), fst (snd ?res), snd (snd ?res))"
    by (metis prod.collapse)
  note c = toggleDone_completed_db [OF run]
  from c(7) a have pts: "select_points_single (snd (snd ?res)) (selectedChildId ui) = Some 0"
    by auto
  have flags: "\<forall>x \<in> set (db_tasks (snd (snd ?res))). t_id x = t_id t \<longrightarrow> \<not> t_is_done x"
    unfolding c(2) using a by auto
  have row: "tx_points (toggle_row (selectedChildId ui) t) = - t_point t"
    using a by (simp add: toggle_row_def Let_def)
  from out pts flags c(1) row
  show "fst ?res = ToggledToast False (- t_point t) \<and>
      select_points_single (snd (snd ?res)) (selectedChildId ui) = Some 0 \<and>
      (\<forall>x \<in> set (db_tasks (snd (snd ?res))). t_id x = t_id t \<longrightarrow> \<not> t_is_done x) \<and>
      point_transactions (snd (snd ?res)) =
        point_transactions d @ [toggle_row (selectedChildId ui) t] \<and>
      tx_points (toggle_row (selectedChildId ui) t) = - t_point t"
    by blast
next
  assume a: "rewards r = Some w \<and> ae_updateErr aenv = None \<and> ae_insertErr aenv = None \<and>
    select_points_single d (rr_child_id r) = Some q \<and> q - rw_required_points w < 0"
  then have rw: "rewards r = Some w"
    and ok: "ae_updateErr aenv = None" "ae_insertErr aenv = None"
    by simp_all
  have res: "approve aenv r (list, d) =
      (ApproveReturned,
       (case ae_selectErr aenv of
          Some e \<Rightarrow> []
        | None \<Rightarrow> select_pending (insert_point_transaction
                    (spend_row (rr_child_id r) (rr_id r) (rw_required_points w))
                    (update_status (rr_id r) ''approved'' d))),
       insert_point_transaction
         (spend_row (rr_child_id r) (rr_id r) (rw_required_points w))
         (update_status (rr_id r) ''approved'' d))"
    unfolding approve_result [OF rw] ok by (simp split: option.split)
  show "fst (approve aenv r (list, d)) = ApproveReturned \<and>
      (\<forall>y \<in> set (reward_redemptions (snd (snd (approve aenv r (list, d))))).
          rr_id y = rr_id r \<longrightarrow> rr_status y = ''approved'') \<and>
      point_transactions (snd (snd (approve aenv r (list, d)))) =
        point_transactions d @
          [spend_row (rr_child_id r) (rr_id r) (rw_required_points w)]"
    unfolding res by (auto simp: insert_point_transaction_def update_status_def)
qed

text \<open>Hana, with 5 points, takes back the dishes worth 10 and has 0 points; Taro, with
  15 points, has his request for the game that costs 20 approved (scenario B of the
  spec).\<close>

theorem debit_below_zero_not_refused_witness:
  "select_points_single db0 ''c1'' = Some 5 \<and>
   fst (toggleDone (all_ok ''p1'') dishes ui0 db0) = ToggledToast False (- 10) \<and>
   select_points_single (snd (snd (toggleDone (all_ok ''p1'') dishes ui0 db0))) ''c1'' = Some 0 \<and>
   select_points_single dbB ''c2'' = Some 15 \<and>
   fst (approve approve_ok (with_reward dbB game_request) ([], dbB)) = ApproveReturned \<and>
   point_transactions (snd (snd (approve approve_ok (with_reward dbB game_request) ([], dbB))))
     = point_transactions dbB @ [spend_row ''c2'' 7 20]"
proof -
  let ?r = "with_reward dbB game_request"
  have rw: "rewards ?r = Some game"
    by (simp add: with_reward_def dbB_def game_request_def game_def
                  reward_redemption.extend_def redemption_with_reward.fields_def)
  have r: "rr_id ?r = 7" "rr_child_id ?r = ''c2''"
    by (simp_all add: with_reward_def game_request_def reward_redemption.extend_def)
  have hana: "select_points_single db0 ''c1'' = Some 5"
    by (simp add: select_points_single_def db0_def hana_def)
  have taro: "select_points_single dbB ''c2'' = Some 15"
    by (simp add: select_points_single_def dbB_def taro_def)
  have toggle: "selectedChildId ui0 \<noteq> [] \<and> t_child_id dishes = selectedChildId ui0 \<and>
    te_user (all_ok ''p1'') = Some ''p1'' \<and>
    te_updateTaskErr (all_ok ''p1'') = None \<and> te_getPointErr (all_ok ''p1'') = None \<and>
    te_updatePointErr (all_ok ''p1'') = None \<and> te_txErr (all_ok ''p1'') = None \<and>
    list_ex (\<lambda>x. t_id x = t_id dishes) (db_tasks db0) \<and> t_is_done dishes \<and>
    select_points_single db0 (selectedChildId ui0) = Some 5 \<and> 5 - t_point dishes < 0"
    using hana by (simp add: ui0_def dishes_def all_ok_def db0_def)
  have approval: "rewards ?r = Some game \<and> ae_updateErr approve_ok = None \<and>
    ae_insertErr approve_ok = None \<and>
    select_points_single dbB (rr_child_id ?r) = Some 15 \<and> 15 - rw_required_points game < 0"
    using rw taro unfolding r by (simp add: approve_ok_def game_def)
  have sel: "selectedChildId ui0 = ''c1''" "t_point dishes = 10" "rw_required_points game = 20"
    by (simp_all add: ui0_def dishes_def game_def)
  from debit_below_zero_not_refused
         [of ui0 dishes "all_ok ''p1''" "''p1''" db0 5 ?r game approve_ok 15 "[]"] toggle
  have t: "fst (toggleDone (all_ok ''p1'') dishes ui0 db0) = ToggledToast False (- 10)"
    "select_points_single (snd (snd (toggleDone (all_ok ''p1'') dishes ui0 db0))) ''c1'' = Some 0"
    unfolding sel by blast+
  from debit_below_zero_not_refused
         [of ui0 dishes "all_ok ''p1''" "''p1''" dbB 5 ?r game approve_ok 15 "[]"] approval
  have a: "fst (approve approve_ok ?r ([], dbB)) = ApproveReturned"
    "point_transactions (snd (snd (approve approve_ok ?r ([], dbB))))
       = point_transactions dbB @ [spend_row ''c2'' 7 20]"
    unfolding sel r by blast+
  from hana taro t a show ?thesis by blast
qed

text \<open>
  The claim as the spec states it fails at both operations: Hana's undo would take her 5
  points to \<open>-5\<close>, yet it completes, her points change to 0 and the dishes are stored
  as not done; Taro's 15 points are less than the 20 the game costs, yet the approval
  returns normally and the request is stored as approved.
\<close>

theorem insufficient_balance_counterexample:
  "map c_points (children db0) = [5] \<and> t_point dishes = 10 \<and> t_is_done dishes \<and>
   fst (toggleDone (all_ok ''p1'') dishes ui0 db0) = ToggledToast False (- 10) \<and>
   map c_points (children (snd (snd (toggleDone (all_ok ''p1'') dishes ui0 db0)))) = [0] \<and>
   map t_is_done (db_tasks (snd (snd (toggleDone (all_ok ''p1'') dishes ui0 db0)))) = [False] \<and>
   map c_points (children dbB) = [15] \<and> rw_required_points game = 20 \<and>
   map rr_status (reward_redemptions dbB) = [''pending'', ''pending''] \<and>
   fst (approve approve_ok (with_reward dbB game_request) ([], dbB)) = ApproveReturned \<and>
   map rr_status (reward_redemptions
      (snd (snd (approve approve_ok (with_reward dbB game_request) ([], dbB)))))
     = [''approved'', ''pending'']"
proof -
  let ?r = "with_reward dbB game_request"
  have rw: "rewards ?r = Some game"
    by (simp add: with_reward_def dbB_def game_request_def game_def
                  reward_redemption.extend_def redemption_with_reward.fields_def)
  have r: "rr_id ?r = 7" "rr_child_id ?r = ''c2''"
    by (simp_all add: with_reward_def game_request_def reward_redemption.extend_def)
  have before: "map c_points (children db0) = [5]" "t_point dishes = 10" "t_is_done dishes"
    "map c_points (children dbB) = [15]" "rw_required_points game = 20"
    "map rr_status (reward_redemptions dbB) = [''pending'', ''pending'']"
    by (simp_all add: db0_def hana_def dishes_def dbB_def taro_def game_def game_request_def)
  have toggle: "fst (toggleDone (all_ok ''p1'') dishes ui0 db0) = ToggledToast False (- 10)"
    "map c_points (children (snd (snd (toggleDone (all_ok ''p1'') dishes ui0 db0)))) = [0]"
    "map t_is_done (db_tasks (snd (snd (toggleDone (all_ok ''p1'') dishes ui0 db0)))) = [False]"
    by (simp_all add: ex_defs)
  have res: "snd (snd (approve approve_ok ?r ([], dbB))) =
               insert_point_transaction (spend_row ''c2'' 7 (rw_required_points game))
                 (update_status 7 ''approved'' dbB)"
    "fst (approve approve_ok ?r ([], dbB)) = ApproveReturned"
    unfolding approve_result [OF rw] r by (simp_all add: approve_ok_def)
  have "map rr_status (reward_redemptions (snd (snd (approve approve_ok ?r ([], dbB)))))
          = [''approved'', ''pending'']"
    unfolding res
    by (simp add: insert_point_transaction_def update_status_def dbB_def game_request_def)
  with before toggle res(2) show ?thesis by simp
qed

end
